theory Spec2Isabelle
  imports Complex_Main "HOL-Library.Multiset"
begin

section \<open>Conventions of the embedding\<close>

text \<open>
  Python floats are modelled by the reals (infinities and NaN are not represented),
  Python's unbounded integers by \<open>int\<close>. Where the source truncates a product of floats
  to an integer, the product is the machine's rounded product, a parameter \<open>fmul\<close> of
  the model, since rounding decides which integer comes out; sums, differences and
  quotients of floats are exact. Every \<open>raise\<close> of the source is a value \<open>Inl e\<close> of the
  result type \<open>py_error + 'a\<close>. The pseudo-random generator of \<open>numpy.random\<close>, the scene
  store and the engines of PyHelios are libraries outside the repository: they appear as
  parameters (a record of functions, a record of call outcomes) and as an explicit state
  that the functions of the repository pass along.
\<close>

datatype py_error = ValueError | ZeroDivisionError | IndexError | HeliosError | OtherError

type_synonym position = "string \<times> real \<times> real"

subsection \<open>Python and numpy primitives used by the position generator\<close>

text \<open>\<open>int(x)\<close> on a float truncates towards zero.\<close>

definition py_int :: "real \<Rightarrow> int" where
  "py_int x = (if 0 \<le> x then \<lfloor>x\<rfloor> else \<lceil>x\<rceil>)"

text \<open>\<open>[s] * n\<close>: the empty list when \<open>n\<close> is not positive.\<close>

definition py_repeat :: "'a \<Rightarrow> int \<Rightarrow> 'a list" where
  "py_repeat s n = replicate (nat n) s"

text \<open>\<open>xs[i]\<close>: negative indices count from the end, out of range raises IndexError.\<close>

definition py_index :: "'a list \<Rightarrow> int \<Rightarrow> py_error + 'a" where
  "py_index xs i =
     (if 0 \<le> i \<and> i < int (length xs) then Inr (xs ! nat i)
      else if i < 0 \<and> - int (length xs) \<le> i then Inr (xs ! nat (int (length xs) + i))
      else Inl IndexError)"

text \<open>\<open>np.clip(a, lo, hi)\<close> is \<open>minimum(maximum(a, lo), hi)\<close>.\<close>

definition np_clip :: "real \<Rightarrow> real \<Rightarrow> real \<Rightarrow> real" where
  "np_clip a lo hi = min (max a lo) hi"

text \<open>
  \<open>np.linspace(start, stop, num)\<close> with the end point included: a negative \<open>num\<close>
  raises ValueError, \<open>num = 1\<close> gives \<open>[start]\<close>.
\<close>

definition np_linspace :: "real \<Rightarrow> real \<Rightarrow> int \<Rightarrow> py_error + real list" where
  "np_linspace start stop num =
     (if num < 0 then Inl ValueError
      else if num = 1 then Inr [start]
      else Inr (map (\<lambda>i. start + real i * ((stop - start) / real_of_int (num - 1)))
                  [0..<nat num]))"

text \<open>
  The generator behind \<open>np.random\<close>: \<open>rng_seed\<close> builds a state from a seed or rejects
  the seed (\<open>None\<close>, numpy's ValueError), \<open>rng_shuffle\<close> and \<open>rng_uniform\<close> draw from a
  state and return the next one.
\<close>

record 'g prng =
  rng_seed :: "int \<Rightarrow> 'g option"
  rng_shuffle :: "'g \<Rightarrow> string list \<Rightarrow> string list \<times> 'g"
  rng_uniform :: "'g \<Rightarrow> real \<Rightarrow> real \<Rightarrow> real \<times> 'g"

text \<open>\<open>np.random.seed(seed)\<close> replaces the module's global state, whatever it was.\<close>

definition np_random_seed :: "'g prng \<Rightarrow> int \<Rightarrow> 'g \<Rightarrow> py_error + 'g" where
  "np_random_seed R seed g0 =
     (case rng_seed R seed of None \<Rightarrow> Inl ValueError | Some g \<Rightarrow> Inr g)"

text \<open>The only property of the library's shuffle that the count laws rely on.\<close>

definition shuffle_permutes :: "'g prng \<Rightarrow> bool" where
  "shuffle_permutes R = (\<forall>g xs. mset (fst (rng_shuffle R g xs)) = mset xs)"

subsection \<open>The position generator (geometry/plants.py)\<close>

text \<open>
  The inner loop \<open>for i in range(n_plants_this_row)\<close>: it returns the positions appended
  in this row, the new \<open>plant_idx\<close> and the new generator state.
\<close>

fun row_loop ::
  "'g prng \<Rightarrow> real \<Rightarrow> real \<Rightarrow> string list \<Rightarrow> int \<Rightarrow> real \<Rightarrow> real \<Rightarrow> nat list \<Rightarrow> int \<Rightarrow> 'g
     \<Rightarrow> py_error + (position list \<times> int \<times> 'g)" where
  "row_loop R plot_width plot_length plant_types total_plants base_spacing row_y [] plant_idx g =
     Inr ([], plant_idx, g)"
| "row_loop R plot_width plot_length plant_types total_plants base_spacing row_y (i # is) plant_idx g =
     (if plant_idx \<ge> total_plants then Inr ([], plant_idx, g)
      else case py_index plant_types plant_idx of
        Inl e \<Rightarrow> Inl e
      | Inr species \<Rightarrow>
          (let (jx, g1) = rng_uniform R g (- 0.02) 0.02;
               x0 = base_spacing * (real i + 1) + jx;
               (jy, g2) = rng_uniform R g1 (- 0.015) 0.015;
               y0 = row_y + jy;
               x = np_clip x0 0.05 (plot_width - 0.05);
               y = np_clip y0 0.05 (plot_length - 0.05)
           in case row_loop R plot_width plot_length plant_types total_plants base_spacing
                     row_y is (plant_idx + 1) g2 of
                Inl e \<Rightarrow> Inl e
              | Inr (rest, idx', g') \<Rightarrow> Inr ((species, x, y) # rest, idx', g')))"

definition n_plants_this_row :: "int \<Rightarrow> int \<Rightarrow> nat \<Rightarrow> int" where
  "n_plants_this_row plants_per_row remainder row_idx =
     plants_per_row + (if int row_idx < remainder then 1 else 0)"

text \<open>
  The outer loop \<open>for row_idx, row_y in enumerate(row_y_positions)\<close>: it returns, row by
  row, the positions appended; the list \<open>positions\<close> of the source is their
  concatenation.
\<close>

fun rows_loop ::
  "'g prng \<Rightarrow> real \<Rightarrow> real \<Rightarrow> string list \<Rightarrow> int \<Rightarrow> int \<Rightarrow> int \<Rightarrow> (nat \<times> real) list \<Rightarrow> int \<Rightarrow> 'g
     \<Rightarrow> py_error + (position list list \<times> int \<times> 'g)" where
  "rows_loop R plot_width plot_length plant_types total_plants plants_per_row remainder [] plant_idx g =
     Inr ([], plant_idx, g)"
| "rows_loop R plot_width plot_length plant_types total_plants plants_per_row remainder
     ((row_idx, row_y) # rs) plant_idx g =
     (let n = n_plants_this_row plants_per_row remainder row_idx
      in case (if n > 0
               then row_loop R plot_width plot_length plant_types total_plants
                      (plot_width / (real_of_int n + 1)) row_y [0..<nat n] plant_idx g
               else Inr ([], plant_idx, g)) of
           Inl e \<Rightarrow> Inl e
         | Inr (row, idx1, g1) \<Rightarrow>
             (case rows_loop R plot_width plot_length plant_types total_plants plants_per_row
                     remainder rs idx1 g1 of
                Inl e \<Rightarrow> Inl e
              | Inr (rest, idx2, g2) \<Rightarrow> Inr (row # rest, idx2, g2)))"

text \<open>
  The body of \<open>generate_intercrop_positions\<close> up to the end of the loops. \<open>g0\<close> is the
  state of numpy's global generator when the function is called, \<open>fmul\<close> the product of
  two floats as the machine computes it (lines 59 to 65).
\<close>

definition generate_intercrop_rows ::
  "(real \<Rightarrow> real \<Rightarrow> real) \<Rightarrow> 'g prng \<Rightarrow> 'g \<Rightarrow> real \<Rightarrow> real \<Rightarrow> int \<Rightarrow> real \<Rightarrow> real \<Rightarrow> real \<Rightarrow> real \<Rightarrow> real \<Rightarrow> int
     \<Rightarrow> py_error + (position list list \<times> 'g)" where
  "generate_intercrop_rows fmul R g0 plot_width plot_length n_rows row_spacing bean_density
     wheat_density bean_emergence wheat_emergence seed =
     (case np_random_seed R seed g0 of
        Inl e \<Rightarrow> Inl e
      | Inr g1 \<Rightarrow>
          (let plot_area = fmul plot_width plot_length;
               bean_seeds = py_int (fmul bean_density plot_area);
               wheat_seeds = py_int (fmul wheat_density plot_area);
               bean_emerged = py_int (fmul (real_of_int bean_seeds) bean_emergence);
               wheat_emerged = py_int (fmul (real_of_int wheat_seeds) wheat_emergence);
               total_plants = bean_emerged + wheat_emerged;
               (plant_types, g2) =
                  rng_shuffle R g1 (py_repeat ''bean'' bean_emerged @ py_repeat ''wheat'' wheat_emerged)
           in case np_linspace row_spacing (plot_length - row_spacing) n_rows of
                Inl e \<Rightarrow> Inl e
              | Inr row_y_positions \<Rightarrow>
                  if n_rows = 0 then Inl ZeroDivisionError
                  else
                    (case rows_loop R plot_width plot_length plant_types total_plants
                            (total_plants div n_rows) (total_plants mod n_rows)
                            (enumerate 0 row_y_positions) 0 g2 of
                       Inl e \<Rightarrow> Inl e
                     | Inr (rows, idx, g3) \<Rightarrow> Inr (rows, g3))))"

text \<open>
  The whole function: the final report divides the counts by \<open>plot_area\<close>, a Python
  float, which raises ZeroDivisionError when the area is zero.
\<close>

definition generate_intercrop_positions ::
  "(real \<Rightarrow> real \<Rightarrow> real) \<Rightarrow> 'g prng \<Rightarrow> 'g \<Rightarrow> real \<Rightarrow> real \<Rightarrow> int \<Rightarrow> real \<Rightarrow> real \<Rightarrow> real \<Rightarrow> real \<Rightarrow> real \<Rightarrow> int
     \<Rightarrow> py_error + (position list \<times> 'g)" where
  "generate_intercrop_positions fmul R g0 plot_width plot_length n_rows row_spacing bean_density
     wheat_density bean_emergence wheat_emergence seed =
     (case generate_intercrop_rows fmul R g0 plot_width plot_length n_rows row_spacing bean_density
             wheat_density bean_emergence wheat_emergence seed of
        Inl e \<Rightarrow> Inl e
      | Inr (rows, g) \<Rightarrow>
          if fmul plot_width plot_length = 0 then Inl ZeroDivisionError
          else Inr (concat rows, g))"

text \<open>The counts \<open>n_bean\<close> and \<open>n_wheat\<close> of the source.\<close>

definition n_species :: "string \<Rightarrow> position list \<Rightarrow> nat" where
  "n_species s positions = length (filter (\<lambda>p. fst p = s) positions)"

text \<open>
  The value the source computes in \<open>bean_emerged\<close> and \<open>wheat_emerged\<close>: the seeds sown
  are truncated to an integer first, the emerged plants a second time; both products are
  the machine's.
\<close>

definition emerged_count :: "(real \<Rightarrow> real \<Rightarrow> real) \<Rightarrow> real \<Rightarrow> real \<Rightarrow> real \<Rightarrow> int" where
  "emerged_count fmul density plot_area emergence =
     py_int (fmul (real_of_int (py_int (fmul density plot_area))) emergence)"

text \<open>
  What the count laws rely on of the machine's product: the product of two non-negative
  floats is not negative.
\<close>

definition keeps_sign :: "(real \<Rightarrow> real \<Rightarrow> real) \<Rightarrow> bool" where
  "keeps_sign fmul = (\<forall>x y. 0 \<le> x \<longrightarrow> 0 \<le> y \<longrightarrow> 0 \<le> fmul x y)"

text \<open>The number of plants a row receives, as a natural number.\<close>

definition row_quota :: "int \<Rightarrow> int \<Rightarrow> nat \<Rightarrow> nat" where
  "row_quota plants_per_row remainder row_idx =
     nat (n_plants_this_row plants_per_row remainder row_idx)"

text \<open>
  What the two \<open>np.clip\<close> calls give for every plot size: the upper bound always, the
  lower bound when the plot is at least 10 cm wide (long).
\<close>

definition within_margin :: "real \<Rightarrow> real \<Rightarrow> position \<Rightarrow> bool" where
  "within_margin plot_width plot_length p =
     (case p of (s, x, y) \<Rightarrow>
        x \<le> plot_width - 0.05 \<and> y \<le> plot_length - 0.05
        \<and> (0.1 \<le> plot_width \<longrightarrow> 0.05 \<le> x) \<and> (0.1 \<le> plot_length \<longrightarrow> 0.05 \<le> y))"

subsection \<open>A small generator to run the model on concrete inputs\<close>

text \<open>
  A linear congruential generator with the interface of \<open>np.random\<close>: seeds outside
  \<open>[0, 2^32)\<close> are rejected as numpy does, the shuffle draws the elements one by one.
  It stands for numpy's generator where a concrete run is evaluated; the general
  theorems hold for every generator.
\<close>

definition lcg_next :: "nat \<Rightarrow> nat" where
  "lcg_next s = (1103515245 * s + 12345) mod 2147483648"

fun lcg_shuffle_n :: "nat \<Rightarrow> nat \<Rightarrow> 'a list \<Rightarrow> 'a list \<times> nat" where
  "lcg_shuffle_n 0 g xs = (xs, g)"
| "lcg_shuffle_n (Suc n) g xs =
     (if xs = [] then ([], g)
      else let g' = lcg_next g; k = g' mod length xs;
               (rest, g'') = lcg_shuffle_n n g' (take k xs @ drop (Suc k) xs)
           in (xs ! k # rest, g''))"

definition lcg_shuffle :: "nat \<Rightarrow> 'a list \<Rightarrow> 'a list \<times> nat" where
  "lcg_shuffle g xs = lcg_shuffle_n (length xs) g xs"

definition lcg_uniform :: "nat \<Rightarrow> real \<Rightarrow> real \<Rightarrow> real \<times> nat" where
  "lcg_uniform g lo hi =
     (let g' = lcg_next g in (lo + (hi - lo) * (real (g' mod 1000) / 1000), g'))"

text \<open>
  The exact product. It is the machine's product wherever that needs no rounding; it
  stands for it in the concrete runs, whose products are exact or, rounded, truncate to
  the same integer.
\<close>

definition exact_mul :: "real \<Rightarrow> real \<Rightarrow> real" where
  "exact_mul x y = x * y"

definition lcg_prng :: "nat prng" where
  "lcg_prng = \<lparr> rng_seed = (\<lambda>s. if 0 \<le> s \<and> s < 4294967296 then Some (nat s) else None),
                rng_shuffle = lcg_shuffle, rng_uniform = lcg_uniform \<rparr>"

subsection \<open>The scene store (PyHelios \<open>Context\<close>)\<close>

text \<open>
  The store is an engine outside the repository. Of it the model keeps what the labelling
  and the radiative properties read and write: the identities (UUIDs) of the primitives in
  creation order, the next free identity, and the string and float data attached to a
  primitive under a field name. Geometry, colour and texture are not represented. Attaching
  data to an identity the store does not hold raises the engine's error.
\<close>

record helios_context =
  ctx_uuids :: "nat list"
  ctx_next_uuid :: nat
  ctx_string_data :: "nat \<times> string \<Rightarrow> string option"
  ctx_float_data :: "nat \<times> string \<Rightarrow> real option"

definition getAllUUIDs :: "helios_context \<Rightarrow> nat list" where
  "getAllUUIDs ctx = ctx_uuids ctx"

text \<open>Adding \<open>k\<close> primitives hands out the next \<open>k\<close> identities.\<close>

definition add_primitives :: "nat \<Rightarrow> helios_context \<Rightarrow> nat list \<times> helios_context" where
  "add_primitives k ctx =
     ([ctx_next_uuid ctx ..< ctx_next_uuid ctx + k],
      ctx\<lparr>ctx_uuids := ctx_uuids ctx @ [ctx_next_uuid ctx ..< ctx_next_uuid ctx + k],
          ctx_next_uuid := ctx_next_uuid ctx + k\<rparr>)"

definition addPatch :: "helios_context \<Rightarrow> nat \<times> helios_context" where
  "addPatch ctx = (ctx_next_uuid ctx, snd (add_primitives 1 ctx))"

text \<open>
  \<open>addTrianglesFromArraysTextured\<close> adds one triangle per face, or raises; \<open>addTile\<close>
  adds one patch per cell of the subdivision, or raises. Whether the engine raises is an
  input of the model (\<open>ok\<close>); \<open>addPatch\<close> is taken to succeed.
\<close>

definition addTrianglesFromArraysTextured ::
  "bool \<Rightarrow> nat \<Rightarrow> helios_context \<Rightarrow> py_error + (nat list \<times> helios_context)" where
  "addTrianglesFromArraysTextured ok n_faces ctx =
     (if ok then Inr (add_primitives n_faces ctx) else Inl HeliosError)"

definition addTile :: "bool \<Rightarrow> int \<Rightarrow> int \<Rightarrow> helios_context \<Rightarrow> py_error + (nat list \<times> helios_context)" where
  "addTile ok subdiv_x subdiv_y ctx =
     (if ok then Inr (add_primitives (nat subdiv_x * nat subdiv_y) ctx) else Inl HeliosError)"

definition setPrimitiveDataString ::
  "helios_context \<Rightarrow> nat \<Rightarrow> string \<Rightarrow> string \<Rightarrow> py_error + helios_context" where
  "setPrimitiveDataString ctx uuid label v =
     (if uuid \<in> set (ctx_uuids ctx)
      then Inr (ctx\<lparr>ctx_string_data := (ctx_string_data ctx)((uuid, label) \<mapsto> v)\<rparr>)
      else Inl HeliosError)"

definition setPrimitiveDataFloat ::
  "helios_context \<Rightarrow> nat \<Rightarrow> string \<Rightarrow> real \<Rightarrow> py_error + helios_context" where
  "setPrimitiveDataFloat ctx uuid label v =
     (if uuid \<in> set (ctx_uuids ctx)
      then Inr (ctx\<lparr>ctx_float_data := (ctx_float_data ctx)((uuid, label) \<mapsto> v)\<rparr>)
      else Inl HeliosError)"

subsection \<open>Constants (config/constants.py)\<close>

definition PLANT_PART_GROUND :: string where "PLANT_PART_GROUND = ''ground''"
definition PLANT_PART_BEAN :: string where "PLANT_PART_BEAN = ''bean''"
definition PLANT_PART_WHEAT :: string where "PLANT_PART_WHEAT = ''wheat''"

definition SOIL_REFLECTANCE :: "string \<Rightarrow> real option" where
  "SOIL_REFLECTANCE =
     [''Red'' \<mapsto> 0.35, ''Green'' \<mapsto> 0.25, ''Blue'' \<mapsto> 0.18, ''NIR'' \<mapsto> 0.38]"

definition LEAF_REFLECTANCE :: "string \<Rightarrow> real option" where
  "LEAF_REFLECTANCE =
     [''Red'' \<mapsto> 0.10, ''Green'' \<mapsto> 0.35, ''Blue'' \<mapsto> 0.15, ''NIR'' \<mapsto> 0.50]"

definition LEAF_TRANSMISSIVITY :: "string \<Rightarrow> real option" where
  "LEAF_TRANSMISSIVITY =
     [''Red'' \<mapsto> 0.05, ''Green'' \<mapsto> 0.15, ''Blue'' \<mapsto> 0.08, ''NIR'' \<mapsto> 0.40]"

subsection \<open>The soil plane (geometry/soil.py)\<close>

text \<open>
  \<open>texture_path\<close> is what \<open>get_builtin_texture_path\<close> found on the file system,
  \<open>textured_ok\<close> and \<open>tile_ok\<close> say whether the engine accepts the two calls. The
  identities of the textured triangles and of the tiles are dropped by the source; only
  the identity of the patch added first is returned.
\<close>

definition create_soil_plane ::
  "helios_context \<Rightarrow> real \<Rightarrow> real \<Rightarrow> string option \<Rightarrow> bool \<Rightarrow> bool \<Rightarrow> int \<Rightarrow> real
     \<Rightarrow> py_error + (nat \<times> real \<times> helios_context)" where
  "create_soil_plane ctx width length' texture_path textured_ok tile_ok subdivisions margin =
     (let (ground_uuid, ctx1) = addPatch ctx
      in case texture_path of
           Some path \<Rightarrow>
             (case addTrianglesFromArraysTextured textured_ok 2 ctx1 of
                Inr (triangles, ctx2) \<Rightarrow> Inr (ground_uuid, margin, ctx2)
              | Inl e \<Rightarrow>
                  (case addTile tile_ok subdivisions subdivisions ctx1 of
                     Inl e' \<Rightarrow> Inl e'
                   | Inr (tiles, ctx2) \<Rightarrow> Inr (ground_uuid, margin, ctx2)))
         | None \<Rightarrow>
             (case addTile tile_ok subdivisions subdivisions ctx1 of
                Inl e' \<Rightarrow> Inl e'
              | Inr (tiles, ctx2) \<Rightarrow> Inr (ground_uuid, margin, ctx2)))"

subsection \<open>The label assignor (segmentation/labels.py)\<close>

fun label_loop ::
  "nat \<Rightarrow> nat list \<Rightarrow> helios_context \<Rightarrow> int \<Rightarrow> int \<Rightarrow> py_error + (helios_context \<times> int \<times> int)" where
  "label_loop ground_uuid [] ctx bean_primitives labeled_count =
     Inr (ctx, bean_primitives, labeled_count)"
| "label_loop ground_uuid (uuid # rest) ctx bean_primitives labeled_count =
     (if uuid \<noteq> ground_uuid
      then (case setPrimitiveDataString ctx uuid ''plant_part'' PLANT_PART_BEAN of
              Inl e \<Rightarrow> Inl e
            | Inr ctx' \<Rightarrow>
                label_loop ground_uuid rest ctx' (bean_primitives + 1) (labeled_count + 1))
      else label_loop ground_uuid rest ctx bean_primitives labeled_count)"

text \<open>The result is the tuple \<open>(labeled_count, bean_primitives, wheat_primitives)\<close> and the store.\<close>

definition apply_species_labels ::
  "helios_context \<Rightarrow> nat \<Rightarrow> (nat \<Rightarrow> int option)
     \<Rightarrow> py_error + ((int \<times> int \<times> int) \<times> helios_context)" where
  "apply_species_labels ctx ground_uuid plant_species_map =
     (let labeled_count = 0; bean_primitives = 0; wheat_primitives = 0;
          all_uuids = getAllUUIDs ctx
      in case setPrimitiveDataString ctx ground_uuid ''plant_part'' PLANT_PART_GROUND of
           Inl e \<Rightarrow> Inl e
         | Inr ctx1 \<Rightarrow>
             (case label_loop ground_uuid all_uuids ctx1 bean_primitives (labeled_count + 1) of
                Inl e \<Rightarrow> Inl e
              | Inr (ctx2, bean_primitives', labeled_count') \<Rightarrow>
                  Inr ((labeled_count', bean_primitives', wheat_primitives), ctx2)))"

subsection \<open>The radiative property assignor (radiation/properties.py)\<close>

definition soil_band :: "helios_context \<Rightarrow> nat \<Rightarrow> string \<Rightarrow> py_error + helios_context" where
  "soil_band ctx uuid band =
     (case SOIL_REFLECTANCE band of
        None \<Rightarrow> Inr ctx
      | Some r \<Rightarrow>
          (case setPrimitiveDataFloat ctx uuid (''reflectivity_'' @ band) r of
             Inl e \<Rightarrow> Inl e
           | Inr ctx1 \<Rightarrow> setPrimitiveDataFloat ctx1 uuid (''transmissivity_'' @ band) 0))"

fun set_soil_properties :: "helios_context \<Rightarrow> nat \<Rightarrow> string list \<Rightarrow> py_error + helios_context" where
  "set_soil_properties ctx uuid [] = Inr ctx"
| "set_soil_properties ctx uuid (band # bands) =
     (case soil_band ctx uuid band of
        Inl e \<Rightarrow> Inl e
      | Inr ctx' \<Rightarrow> set_soil_properties ctx' uuid bands)"

definition leaf_band :: "helios_context \<Rightarrow> nat \<Rightarrow> string \<Rightarrow> py_error + helios_context" where
  "leaf_band ctx uuid band =
     (case (case LEAF_REFLECTANCE band of
              None \<Rightarrow> Inr ctx
            | Some r \<Rightarrow> setPrimitiveDataFloat ctx uuid (''reflectivity_'' @ band) r) of
        Inl e \<Rightarrow> Inl e
      | Inr ctx1 \<Rightarrow>
          (case LEAF_TRANSMISSIVITY band of
             None \<Rightarrow> Inr ctx1
           | Some t \<Rightarrow> setPrimitiveDataFloat ctx1 uuid (''transmissivity_'' @ band) t))"

fun set_leaf_properties :: "helios_context \<Rightarrow> nat \<Rightarrow> string list \<Rightarrow> py_error + helios_context" where
  "set_leaf_properties ctx uuid [] = Inr ctx"
| "set_leaf_properties ctx uuid (band # bands) =
     (case leaf_band ctx uuid band of
        Inl e \<Rightarrow> Inl e
      | Inr ctx' \<Rightarrow> set_leaf_properties ctx' uuid bands)"

fun properties_loop ::
  "nat \<Rightarrow> string list \<Rightarrow> nat list \<Rightarrow> helios_context \<Rightarrow> py_error + helios_context" where
  "properties_loop ground_uuid bands [] ctx = Inr ctx"
| "properties_loop ground_uuid bands (uuid # rest) ctx =
     (case (if uuid = ground_uuid then set_soil_properties ctx uuid bands
            else set_leaf_properties ctx uuid bands) of
        Inl e \<Rightarrow> Inl e
      | Inr ctx' \<Rightarrow> properties_loop ground_uuid bands rest ctx')"

definition apply_radiative_properties ::
  "helios_context \<Rightarrow> nat \<Rightarrow> string list option \<Rightarrow> py_error + (int \<times> helios_context)" where
  "apply_radiative_properties ctx ground_uuid bands_arg =
     (let bands = (case bands_arg of None \<Rightarrow> [''Red'', ''Green'', ''Blue'', ''NIR''] | Some bs \<Rightarrow> bs);
          all_uuids = getAllUUIDs ctx
      in case properties_loop ground_uuid bands all_uuids ctx of
           Inl e \<Rightarrow> Inl e
         | Inr ctx' \<Rightarrow> Inr (int (length all_uuids), ctx'))"

text \<open>A primitive carries the leaf coefficients of a band.\<close>

definition leaf_coefficients :: "helios_context \<Rightarrow> nat \<Rightarrow> string \<Rightarrow> bool" where
  "leaf_coefficients ctx uuid band =
     ((case LEAF_REFLECTANCE band of
         None \<Rightarrow> True
       | Some r \<Rightarrow> ctx_float_data ctx (uuid, ''reflectivity_'' @ band) = Some r)
    \<and> (case LEAF_TRANSMISSIVITY band of
         None \<Rightarrow> True
       | Some t \<Rightarrow> ctx_float_data ctx (uuid, ''transmissivity_'' @ band) = Some t))"

subsection \<open>Camera geometry (geometry/camera.py)\<close>

text \<open>\<open>np.radians\<close> converts degrees to radians.\<close>

definition np_radians :: "real \<Rightarrow> real" where
  "np_radians deg = deg * pi / 180"

definition calculate_nadir_camera_height :: "real \<Rightarrow> real \<Rightarrow> real \<Rightarrow> real \<Rightarrow> real" where
  "calculate_nadir_camera_height plot_width plot_length fov_degrees margin_factor =
     (let diagonal = sqrt (plot_width\<^sup>2 + plot_length\<^sup>2);
          fov_rad = np_radians fov_degrees;
          height = (diagonal / 2) / tan (fov_rad / 2)
      in height * margin_factor)"

subsection \<open>The orchestrator (scripts/generate_scene.py)\<close>

text \<open>
  \<open>main\<close> is a sequence of calls into the stage functions of the repository and into
  the engines. What a call computes is modelled above or belongs to an engine; here a
  call either completes or raises, as the environment says, and the model is the control
  flow of \<open>main\<close>: which calls are made for which flags, in which order, and which of
  them stand inside the \<open>try\<close> block. The log lists the calls completed and the
  exceptions caught.
\<close>

datatype stage_call =
    ParseDateTime | SetupHeliosContext | CreateSoilPlane | GenerateIntercropPositions
  | OpenPlantArchitecture | SetupFullCollisionSystem | BuildPlants | GrowPlants
  | GetPrimitiveCount | ApplySpeciesLabels | CalculateSolarPosition | GetNextOutputFolder
  | ApplyRadiativeProperties | OpenRadiationModel | SetupRadiationBands | SetupSunSource
  | ConfigureBandRendering | SetupRadiationCamera | RunCameraSimulation | SaveCameraImages
  | SaveSegmentationMasks | ExportScene | SaveSceneMetadata | RenderInteractive

datatype event = Completed stage_call | Caught py_error

datatype outcome = Returned int | Raised py_error

text \<open>The command-line flags that decide which stages run.\<close>

record args =
  camera :: bool
  segmentation :: bool
  save :: bool
  no_interactive :: bool
  growth_days :: int
  bean_age :: "int option"
  wheat_age :: "int option"

text \<open>
  The environment of a run: whether the plugins are available, which calls raise, and
  whether \<open>save_camera_images\<close> returned a file name.
\<close>

record environment =
  plugins_available :: bool
  raises :: "stage_call \<Rightarrow> py_error option"
  primary_image :: bool

definition DEFAULT_INITIAL_AGE :: int where
  "DEFAULT_INITIAL_AGE = 5"

definition max_growth_time :: "args \<Rightarrow> int" where
  "max_growth_time a =
     (let bean_age' = (case bean_age a of Some d \<Rightarrow> d | None \<Rightarrow> growth_days a);
          wheat_age' = (case wheat_age a of Some d \<Rightarrow> d | None \<Rightarrow> growth_days a);
          bean_growth_time = max 0 (bean_age' - DEFAULT_INITIAL_AGE);
          wheat_growth_time = max 0 (wheat_age' - DEFAULT_INITIAL_AGE)
      in max bean_growth_time wheat_growth_time)"

text \<open>Calls made one after the other outside any \<open>try\<close>: the first exception ends them.\<close>

fun run_calls ::
  "(stage_call \<Rightarrow> py_error option) \<Rightarrow> stage_call list \<Rightarrow> event list
     \<Rightarrow> event list \<times> py_error option" where
  "run_calls rs [] lg = (lg, None)"
| "run_calls rs (c # cs) lg =
     (case rs c of
        Some e \<Rightarrow> (lg, Some e)
      | None \<Rightarrow> run_calls rs cs (lg @ [Completed c]))"

text \<open>Scene creation, up to the count of the primitives (lines 222 to 264).\<close>

definition scene_built_calls :: "args \<Rightarrow> stage_call list" where
  "scene_built_calls a =
     [SetupHeliosContext, CreateSoilPlane, GenerateIntercropPositions,
      OpenPlantArchitecture, SetupFullCollisionSystem, BuildPlants]
     @ (if max_growth_time a > 0 then [GrowPlants] else [])
     @ [GetPrimitiveCount]"

text \<open>Labelling, the solar position and the output folder (lines 270 to 288).\<close>

definition labeled_calls :: "args \<Rightarrow> stage_call list" where
  "labeled_calls a = (if segmentation a then [ApplySpeciesLabels] else [])"

definition output_folder_calls :: "args \<Rightarrow> stage_call list" where
  "output_folder_calls a = (if save a then [GetNextOutputFolder] else [])"

text \<open>The body of the \<open>try\<close> block of the camera stage (lines 301 to 330).\<close>

definition imaging_try_calls :: "environment \<Rightarrow> args \<Rightarrow> stage_call list" where
  "imaging_try_calls env a =
     [OpenRadiationModel, SetupRadiationBands, SetupSunSource, ConfigureBandRendering,
      SetupRadiationCamera, RunCameraSimulation]
     @ (if save a
        then SaveCameraImages
               # (if segmentation a \<and> primary_image env then [SaveSegmentationMasks] else [])
        else [])"

text \<open>
  The camera stage (lines 291 to 337): \<open>apply_radiative_properties\<close> is called before
  the \<open>try\<close>; an exception raised inside the \<open>try\<close> is caught and the run goes on.
\<close>

definition camera_stage ::
  "environment \<Rightarrow> args \<Rightarrow> event list \<Rightarrow> event list \<times> py_error option" where
  "camera_stage env a lg =
     (if camera a
      then (case run_calls (raises env) [ApplyRadiativeProperties] lg of
              (log1, Some e) \<Rightarrow> (log1, Some e)
            | (log1, None) \<Rightarrow>
                (case run_calls (raises env) (imaging_try_calls env a) log1 of
                   (log2, Some e) \<Rightarrow> (log2 @ [Caught e], None)
                 | (log2, None) \<Rightarrow> (log2, None)))
      else (lg, None))"


text \<open>Export and interactive view (lines 340 to 371).\<close>

definition export_calls :: "args \<Rightarrow> stage_call list" where
  "export_calls a = (if save a then [ExportScene, SaveSceneMetadata] else [])"

definition visualization_calls :: "args \<Rightarrow> stage_call list" where
  "visualization_calls a = (if \<not> no_interactive a then [RenderInteractive] else [])"

definition main :: "environment \<Rightarrow> args \<Rightarrow> event list \<times> outcome" where
  "main env a =
     (case run_calls (raises env) [ParseDateTime] [] of
        (log0, Some e) \<Rightarrow> (log0, Raised e)
      | (log0, None) \<Rightarrow>
          if \<not> plugins_available env then (log0, Returned 1)
          else
            (case run_calls (raises env)
                    (scene_built_calls a @ labeled_calls a @ [CalculateSolarPosition]
                     @ output_folder_calls a) log0 of
               (log1, Some e) \<Rightarrow> (log1, Raised e)
             | (log1, None) \<Rightarrow>
                 (case camera_stage env a log1 of
                    (log2, Some e) \<Rightarrow> (log2, Raised e)
                  | (log2, None) \<Rightarrow>
                      (case run_calls (raises env)
                              (export_calls a @ visualization_calls a) log2 of
                         (log3, Some e) \<Rightarrow> (log3, Raised e)
                       | (log3, None) \<Rightarrow> (log3, Returned 0)))))"

section \<open>Lemmas about the loops of the position generator\<close>

lemma np_clip_upper: "np_clip a lo hi \<le> hi"
  by (simp add: np_clip_def)

lemma np_clip_lower: "lo \<le> hi \<Longrightarrow> lo \<le> np_clip a lo hi"
  by (simp add: np_clip_def)

lemma within_margin_clip:
  "within_margin W L (s, np_clip x0 (1 / 20) (W - 1 / 20), np_clip y0 (1 / 20) (L - 1 / 20))"
  by (auto simp: within_margin_def np_clip_def min_def max_def)

lemma row_loop_within:
  "row_loop R W L tys tot bs ry is idx g = Inr (row, idx', g')
   \<Longrightarrow> \<forall>p \<in> set row. within_margin W L p"
proof (induction "is" arbitrary: idx g row idx' g')
  case Nil
  then show ?case by simp
next
  case (Cons i "is")
  show ?case
  proof (cases "tot \<le> idx")
    case True
    with Cons.prems show ?thesis by simp
  next
    case False
    with Cons.prems Cons.IH show ?thesis
      by (auto simp: within_margin_clip split: sum.splits prod.splits)
  qed
qed

lemma rows_loop_within:
  "rows_loop R W L tys tot ppr rmd rs idx g = Inr (rows, idx', g')
   \<Longrightarrow> \<forall>row \<in> set rows. \<forall>p \<in> set row. within_margin W L p"
proof (induction rs arbitrary: idx g rows idx' g')
  case Nil
  then show ?case by simp
next
  case (Cons r rs)
  obtain j y where r: "r = (j, y)" by (cases r)
  from Cons.prems obtain row idx1 g1 rest where
    hd: "(if n_plants_this_row ppr rmd j > 0
          then row_loop R W L tys tot (W / (real_of_int (n_plants_this_row ppr rmd j) + 1)) y
                 [0..<nat (n_plants_this_row ppr rmd j)] idx g
          else Inr ([], idx, g)) = Inr (row, idx1, g1)"
    and tl: "rows_loop R W L tys tot ppr rmd rs idx1 g1 = Inr (rest, idx', g')"
    and rows: "rows = row # rest"
    unfolding r by (auto simp: Let_def split: sum.splits prod.splits)
  from hd have "\<forall>p \<in> set row. within_margin W L p"
    by (cases "n_plants_this_row ppr rmd j > 0") (auto dest: row_loop_within)
  with Cons.IH[OF tl] rows show ?case by simp
qed

lemma row_loop_ok:
  assumes "0 \<le> idx" "tot \<le> int (length tys)"
  shows "\<exists>row g'. row_loop R W L tys tot bs ry is idx g
            = Inr (row, idx + int (nat (min (int (length is)) (tot - idx))), g')
          \<and> map fst row = take (nat (min (int (length is)) (tot - idx))) (drop (nat idx) tys)"
  using assms
proof (induction "is" arbitrary: idx g)
  case Nil
  then show ?case by simp
next
  case (Cons i "is")
  show ?case
  proof (cases "tot \<le> idx")
    case True
    then show ?thesis by simp
  next
    case False
    then have lt: "idx < tot" by simp
    with Cons.prems have inr: "py_index tys idx = Inr (tys ! nat idx)"
      by (simp add: py_index_def)
    obtain jx g1 where u1: "rng_uniform R g (- 0.02) 0.02 = (jx, g1)" by (cases "rng_uniform R g (- 0.02) 0.02")
    obtain jy g2 where u2: "rng_uniform R g1 (- 0.015) 0.015 = (jy, g2)" by (cases "rng_uniform R g1 (- 0.015) 0.015")
    from Cons.prems have p: "0 \<le> idx + 1" by simp
    from Cons.IH[OF p Cons.prems(2), of g2] obtain row g' where
      rl: "row_loop R W L tys tot bs ry is (idx + 1) g2
            = Inr (row, idx + 1 + int (nat (min (int (length is)) (tot - (idx + 1)))), g')"
      and mp: "map fst row = take (nat (min (int (length is)) (tot - (idx + 1)))) (drop (nat (idx + 1)) tys)"
      by blast
    have k: "nat (min (int (length (i # is))) (tot - idx)) = Suc (nat (min (int (length is)) (tot - (idx + 1))))"
      using lt by simp
    have dr: "drop (nat idx) tys = tys ! nat idx # drop (nat (idx + 1)) tys"
      using lt Cons.prems by (simp add: Cons_nth_drop_Suc nat_add_distrib)
    show ?thesis
      using lt inr u1 u2 rl mp k dr by (simp add: Let_def)
  qed
qed

lemma rows_loop_ok:
  assumes "0 \<le> idx" "tot \<le> int (length tys)"
    and "idx + (\<Sum>r\<leftarrow>rs. int (row_quota ppr rmd (fst r))) \<le> tot"
  shows "\<exists>rows g'. rows_loop R W L tys tot ppr rmd rs idx g
            = Inr (rows, idx + (\<Sum>r\<leftarrow>rs. int (row_quota ppr rmd (fst r))), g')
          \<and> map length rows = map (\<lambda>r. row_quota ppr rmd (fst r)) rs
          \<and> map fst (concat rows)
              = take (nat (\<Sum>r\<leftarrow>rs. int (row_quota ppr rmd (fst r)))) (drop (nat idx) tys)"
  using assms
proof (induction rs arbitrary: idx g)
  case Nil
  then show ?case by simp
next
  case (Cons r rs)
  obtain j y where r: "r = (j, y)" by (cases r)
  define n where "n = n_plants_this_row ppr rmd j"
  define k where "k = row_quota ppr rmd j"
  have kn: "k = nat n" by (simp add: k_def n_def row_quota_def)
  define m where "m = (\<Sum>r\<leftarrow>rs. int (row_quota ppr rmd (fst r)))"
  have m0: "0 \<le> m" unfolding m_def by (induction rs) auto
  from Cons.prems(3) have le: "idx + int k + m \<le> tot"
    unfolding r k_def n_def m_def by simp
  have "\<exists>row g1. (if n > 0
          then row_loop R W L tys tot (W / (real_of_int n + 1)) y [0..<nat n] idx g
          else Inr ([], idx, g)) = Inr (row, idx + int k, g1)
        \<and> map fst row = take k (drop (nat idx) tys)"
  proof (cases "n > 0")
    case True
    have "nat (min (int (length [0..<nat n])) (tot - idx)) = k"
      using True le m0 by (simp add: kn)
    with row_loop_ok[OF Cons.prems(1) Cons.prems(2), of R W L "W / (real_of_int n + 1)" y "[0..<nat n]" g]
    show ?thesis using True by auto
  next
    case False
    then show ?thesis by (simp add: kn)
  qed
  then obtain row g1 where
    hd: "(if n > 0
          then row_loop R W L tys tot (W / (real_of_int n + 1)) y [0..<nat n] idx g
          else Inr ([], idx, g)) = Inr (row, idx + int k, g1)"
    and mp: "map fst row = take k (drop (nat idx) tys)" by blast
  have i1: "0 \<le> idx + int k" using Cons.prems(1) by simp
  have i3: "idx + int k + (\<Sum>r\<leftarrow>rs. int (row_quota ppr rmd (fst r))) \<le> tot"
    using le by (simp add: m_def)
  from Cons.IH[OF i1 Cons.prems(2) i3, of g1] obtain rest g' where
    tl: "rows_loop R W L tys tot ppr rmd rs (idx + int k) g1 = Inr (rest, idx + int k + m, g')"
    and ln: "map length rest = map (\<lambda>r. row_quota ppr rmd (fst r)) rs"
    and cc: "map fst (concat rest) = take (nat m) (drop (nat (idx + int k)) tys)"
    unfolding m_def by blast
  have lrow: "length row = k"
  proof -
    have "length row = length (map fst row)" by simp
    also have "\<dots> = min k (length tys - nat idx)" by (simp add: mp)
    also have "\<dots> = k" using le m0 Cons.prems by linarith
    finally show ?thesis .
  qed
  have dd: "drop (nat (idx + int k)) tys = drop k (drop (nat idx) tys)"
    using Cons.prems(1) by (simp add: nat_add_distrib add.commute)
  have tk: "take (nat (int k + m)) (drop (nat idx) tys)
            = take k (drop (nat idx) tys) @ take (nat m) (drop k (drop (nat idx) tys))"
    using m0 by (simp add: nat_add_distrib take_add)
  have res: "rows_loop R W L tys tot ppr rmd (r # rs) idx g = Inr (row # rest, idx + (int k + m), g')"
    unfolding r using hd tl by (simp add: Let_def n_def[symmetric] add.assoc)
  show ?case
    apply (rule exI[of _ "row # rest"], rule exI[of _ g'])
    using res ln cc mp lrow dd tk
    by (simp add: r k_def m_def)
qed

lemma quota_sum:
  assumes "0 \<le> q" "0 \<le> r"
  shows "(\<Sum>j\<leftarrow>[0..<m]. int (row_quota q r j)) = int m * q + min (int m) r"
proof (induction m)
  case 0
  then show ?case using assms by simp
next
  case (Suc m)
  then show ?case using assms
    by (simp add: row_quota_def n_plants_this_row_def algebra_simps min_def)
qed

lemma quota_total:
  assumes "1 \<le> n" "0 \<le> tot"
  shows "(\<Sum>j\<leftarrow>[0..<nat n]. int (row_quota (tot div n) (tot mod n) j)) = tot"
proof -
  have q: "0 \<le> tot div n" using assms by (simp add: pos_imp_zdiv_nonneg_iff)
  have r: "0 \<le> tot mod n" "tot mod n < n" using assms by simp_all
  have "(\<Sum>j\<leftarrow>[0..<nat n]. int (row_quota (tot div n) (tot mod n) j))
        = int (nat n) * (tot div n) + min (int (nat n)) (tot mod n)"
    by (rule quota_sum[OF q r(1)])
  also have "\<dots> = n * (tot div n) + tot mod n" using assms r by simp
  also have "\<dots> = tot" by simp
  finally show ?thesis .
qed

lemma np_linspace_length:
  "0 \<le> n \<Longrightarrow> \<exists>ys. np_linspace a b n = Inr ys \<and> length ys = nat n"
  by (auto simp: np_linspace_def)

lemma enumerate_fst_sum:
  "(\<Sum>r\<leftarrow>enumerate 0 ys. f (fst r)) = (\<Sum>j\<leftarrow>[0..<length ys]. f j)"
proof -
  have a: "map fst (enumerate 0 ys) = [0..<length ys]" by simp
  have "map (\<lambda>r. f (fst r)) (enumerate 0 ys) = map f (map fst (enumerate 0 ys))"
    by (simp only: map_map comp_def)
  then show ?thesis by (simp only: a)
qed

lemma enumerate_fst_map:
  "map (\<lambda>r. f (fst r)) (enumerate 0 ys) = map f [0..<length ys]"
proof -
  have a: "map fst (enumerate 0 ys) = [0..<length ys]" by simp
  have "map (\<lambda>r. f (fst r)) (enumerate 0 ys) = map f (map fst (enumerate 0 ys))"
    by (simp only: map_map comp_def)
  then show ?thesis by (simp only: a)
qed

lemma generate_rows_ok:
  assumes seed: "rng_seed R seed = Some g1"
    and n: "1 \<le> n_rows"
    and b: "0 \<le> emerged_count fmul bd (fmul W L) be"
    and w: "0 \<le> emerged_count fmul wd (fmul W L) we"
    and perm: "shuffle_permutes R"
  shows "\<exists>rows g. generate_intercrop_rows fmul R g0 W L n_rows rsp bd wd be we seed = Inr (rows, g)
     \<and> map length rows
         = map (row_quota ((emerged_count fmul bd (fmul W L) be + emerged_count fmul wd (fmul W L) we) div n_rows)
                          ((emerged_count fmul bd (fmul W L) be + emerged_count fmul wd (fmul W L) we) mod n_rows))
               [0..<nat n_rows]
     \<and> map fst (concat rows)
         = fst (rng_shuffle R g1 (py_repeat ''bean'' (emerged_count fmul bd (fmul W L) be)
                                   @ py_repeat ''wheat'' (emerged_count fmul wd (fmul W L) we)))"
proof -
  define bb where "bb = emerged_count fmul bd (fmul W L) be"
  define ww where "ww = emerged_count fmul wd (fmul W L) we"
  define tot where "tot = bb + ww"
  obtain tys g2 where sh: "rng_shuffle R g1 (py_repeat ''bean'' bb @ py_repeat ''wheat'' ww) = (tys, g2)"
    by (cases "rng_shuffle R g1 (py_repeat ''bean'' bb @ py_repeat ''wheat'' ww)")
  from perm have "mset tys = mset (py_repeat ''bean'' bb @ py_repeat ''wheat'' ww)"
    using sh unfolding shuffle_permutes_def by (metis fst_conv)
  then have "length tys = length (py_repeat ''bean'' bb @ py_repeat ''wheat'' ww)"
    by (rule mset_eq_length)
  then have len: "int (length tys) = tot"
    using b w by (simp add: py_repeat_def tot_def bb_def ww_def)
  from n obtain ys where ls: "np_linspace rsp (L - rsp) n_rows = Inr ys" and ly: "length ys = nat n_rows"
    using np_linspace_length[of n_rows rsp "L - rsp"] by auto
  have tot0: "0 \<le> tot" using b w by (simp add: tot_def bb_def ww_def)
  have sm: "(\<Sum>r\<leftarrow>enumerate 0 ys. int (row_quota (tot div n_rows) (tot mod n_rows) (fst r))) = tot"
    using quota_total[OF n tot0]
      enumerate_fst_sum[of "\<lambda>j. int (row_quota (tot div n_rows) (tot mod n_rows) j)" ys]
    by (simp only: ly)
  have le: "0 + (\<Sum>r\<leftarrow>enumerate 0 ys. int (row_quota (tot div n_rows) (tot mod n_rows) (fst r))) \<le> tot"
    by (simp only: sm)
  have tl: "tot \<le> int (length tys)" using len by simp
  from rows_loop_ok[OF order_refl tl le, of R W L g2] obtain rows g' where
    rl: "rows_loop R W L tys tot (tot div n_rows) (tot mod n_rows) (enumerate 0 ys) 0 g2
           = Inr (rows, 0 + (\<Sum>r\<leftarrow>enumerate 0 ys. int (row_quota (tot div n_rows) (tot mod n_rows) (fst r))), g')"
    and ml: "map length rows = map (\<lambda>r. row_quota (tot div n_rows) (tot mod n_rows) (fst r)) (enumerate 0 ys)"
    and mc: "map fst (concat rows)
              = take (nat (\<Sum>r\<leftarrow>enumerate 0 ys. int (row_quota (tot div n_rows) (tot mod n_rows) (fst r))))
                  (drop (nat 0) tys)"
    by blast
  have ml': "map length rows = map (row_quota (tot div n_rows) (tot mod n_rows)) [0..<nat n_rows]"
    using ml enumerate_fst_map[of "row_quota (tot div n_rows) (tot mod n_rows)" ys]
    by (simp only: ly)
  have mc': "map fst (concat rows) = tys"
    using mc len by (simp only: sm) simp
  have n0: "n_rows \<noteq> 0" using n by simp
  have "generate_intercrop_rows fmul R g0 W L n_rows rsp bd wd be we seed = Inr (rows, g')"
    using seed sh ls n0 rl
    by (simp add: generate_intercrop_rows_def np_random_seed_def Let_def
          emerged_count_def[symmetric] bb_def[symmetric] ww_def[symmetric] tot_def[symmetric] sm)
  with ml' mc' sh show ?thesis
    by (simp add: bb_def ww_def tot_def)
qed

lemma lcg_shuffle_n_mset: "mset (fst (lcg_shuffle_n n g xs)) = mset xs"
proof (induction n arbitrary: g xs)
  case 0
  then show ?case by simp
next
  case (Suc n)
  show ?case
  proof (cases "xs = []")
    case True
    then show ?thesis by simp
  next
    case False
    define k where "k = lcg_next g mod length xs"
    have kl: "k < length xs" using False by (simp add: k_def)
    have "mset xs = mset (take k xs @ xs ! k # drop (Suc k) xs)"
      using id_take_nth_drop[OF kl] by simp
    then have sp: "mset xs = add_mset (xs ! k) (mset (take k xs @ drop (Suc k) xs))" by simp
    obtain rest g2 where r: "lcg_shuffle_n n (lcg_next g) (take k xs @ drop (Suc k) xs) = (rest, g2)"
      by (cases "lcg_shuffle_n n (lcg_next g) (take k xs @ drop (Suc k) xs)")
    from Suc.IH[of "lcg_next g" "take k xs @ drop (Suc k) xs"] r
    have "mset rest = mset (take k xs @ drop (Suc k) xs)" by simp
    with sp False r show ?thesis
      by (simp add: Let_def k_def[symmetric])
  qed
qed

lemma exact_mul_keeps_sign: "keeps_sign exact_mul"
  by (simp add: keeps_sign_def exact_mul_def)

lemma lcg_shuffle_permutes: "shuffle_permutes lcg_prng"
  by (simp add: shuffle_permutes_def lcg_prng_def lcg_shuffle_def lcg_shuffle_n_mset)

lemma py_int_nonneg: "0 \<le> x \<Longrightarrow> py_int x = \<lfloor>x\<rfloor>"
  by (simp add: py_int_def)

lemma emerged_count_floor:
  assumes "keeps_sign fmul" "0 \<le> density" "0 \<le> plot_area" "0 \<le> emergence"
  shows "emerged_count fmul density plot_area emergence
           = \<lfloor>fmul (real_of_int \<lfloor>fmul density plot_area\<rfloor>) emergence\<rfloor>"
    and "0 \<le> emerged_count fmul density plot_area emergence"
proof -
  have a: "0 \<le> fmul density plot_area"
    using assms(1-3) by (simp add: keeps_sign_def)
  then have b: "(0::real) \<le> real_of_int \<lfloor>fmul density plot_area\<rfloor>" by simp
  have c: "0 \<le> fmul (real_of_int \<lfloor>fmul density plot_area\<rfloor>) emergence"
    using assms(1) b assms(4) by (simp add: keeps_sign_def)
  show "emerged_count fmul density plot_area emergence
           = \<lfloor>fmul (real_of_int \<lfloor>fmul density plot_area\<rfloor>) emergence\<rfloor>"
    using a c by (simp add: emerged_count_def py_int_nonneg)
  then show "0 \<le> emerged_count fmul density plot_area emergence" using c by simp
qed

lemma n_species_count: "n_species s ps = count (mset (map fst ps)) s"
  by (induction ps) (simp_all add: n_species_def)

lemma n_species_mset:
  assumes "mset (map fst ps) = mset (replicate b ''bean'' @ replicate w ''wheat'')"
  shows "n_species ''bean'' ps = b \<and> n_species ''wheat'' ps = w \<and> length ps = b + w"
proof -
  have "length ps = size (mset (map fst ps))" by simp
  also have "\<dots> = b + w" by (simp only: assms) simp
  finally have l: "length ps = b + w" .
  have "n_species ''bean'' ps = count (mset (replicate b ''bean'' @ replicate w ''wheat'')) ''bean''"
    by (simp only: n_species_count assms)
  then have nb: "n_species ''bean'' ps = b" by simp
  have "n_species ''wheat'' ps = count (mset (replicate b ''bean'' @ replicate w ''wheat'')) ''wheat''"
    by (simp only: n_species_count assms)
  then have nw: "n_species ''wheat'' ps = w" by simp
  from l nb nw show ?thesis by simp
qed

lemma generate_positions_counts:
  assumes seed: "rng_seed R seed = Some g1"
    and perm: "shuffle_permutes R"
    and n: "1 \<le> n_rows"
    and sign: "keeps_sign fmul"
    and dims: "0 < W" "0 < L"
    and nz: "fmul W L \<noteq> 0"
    and nonneg: "0 \<le> bd" "0 \<le> wd" "0 \<le> be" "0 \<le> we"
  shows "\<exists>ps g. generate_intercrop_positions fmul R g0 W L n_rows rsp bd wd be we seed = Inr (ps, g)
     \<and> n_species ''bean'' ps = nat (emerged_count fmul bd (fmul W L) be)
     \<and> n_species ''wheat'' ps = nat (emerged_count fmul wd (fmul W L) we)
     \<and> length ps = nat (emerged_count fmul bd (fmul W L) be) + nat (emerged_count fmul wd (fmul W L) we)"
proof -
  have area: "0 \<le> fmul W L" using sign dims by (simp add: keeps_sign_def)
  have b: "0 \<le> emerged_count fmul bd (fmul W L) be"
    by (rule emerged_count_floor(2)[OF sign nonneg(1) area nonneg(3)])
  have w: "0 \<le> emerged_count fmul wd (fmul W L) we"
    by (rule emerged_count_floor(2)[OF sign nonneg(2) area nonneg(4)])
  from generate_rows_ok[OF seed n b w perm, of g0 rsp] obtain rows g where
    gr: "generate_intercrop_rows fmul R g0 W L n_rows rsp bd wd be we seed = Inr (rows, g)"
    and sp: "map fst (concat rows)
         = fst (rng_shuffle R g1 (py_repeat ''bean'' (emerged_count fmul bd (fmul W L) be)
                                   @ py_repeat ''wheat'' (emerged_count fmul wd (fmul W L) we)))"
    by blast
  from perm have "mset (map fst (concat rows))
      = mset (py_repeat ''bean'' (emerged_count fmul bd (fmul W L) be)
              @ py_repeat ''wheat'' (emerged_count fmul wd (fmul W L) we))"
    unfolding sp shuffle_permutes_def by blast
  then have "mset (map fst (concat rows))
      = mset (replicate (nat (emerged_count fmul bd (fmul W L) be)) ''bean''
              @ replicate (nat (emerged_count fmul wd (fmul W L) we)) ''wheat'')"
    by (simp only: py_repeat_def)
  from n_species_mset[OF this] gr nz show ?thesis
    by (simp add: generate_intercrop_positions_def)
qed

lemma generate_positions_within:
  assumes "generate_intercrop_positions fmul R g0 W L n_rows rsp bd wd be we seed = Inr (ps, g)"
  shows "\<forall>p \<in> set ps. within_margin W L p"
proof -
  from assms obtain rows where
    gr: "generate_intercrop_rows fmul R g0 W L n_rows rsp bd wd be we seed = Inr (rows, g)"
    and ps: "ps = concat rows"
    by (auto simp: generate_intercrop_positions_def split: sum.splits if_splits)
  from gr obtain tys tot ys idx g2 where
    "rows_loop R W L tys tot (tot div n_rows) (tot mod n_rows) (enumerate 0 ys) 0 g2
       = Inr (rows, idx, g)"
    by (auto simp: generate_intercrop_rows_def Let_def split: sum.splits if_splits prod.splits)
  from rows_loop_within[OF this] ps show ?thesis by auto
qed

lemma int_sum_list_map: "int (sum_list (map f xs)) = (\<Sum>x\<leftarrow>xs. int (f x))"
  by (induction xs) simp_all

section \<open>Lemmas about the scene store, the labels and the radiative properties\<close>

lemma setPrimitiveDataString_ok:
  "uuid \<in> set (ctx_uuids ctx) \<Longrightarrow>
   setPrimitiveDataString ctx uuid label v
     = Inr (ctx\<lparr>ctx_string_data := (ctx_string_data ctx)((uuid, label) \<mapsto> v)\<rparr>)"
  by (simp add: setPrimitiveDataString_def)

lemma setPrimitiveDataFloat_ok:
  "uuid \<in> set (ctx_uuids ctx) \<Longrightarrow>
   setPrimitiveDataFloat ctx uuid label v
     = Inr (ctx\<lparr>ctx_float_data := (ctx_float_data ctx)((uuid, label) \<mapsto> v)\<rparr>)"
  by (simp add: setPrimitiveDataFloat_def)

lemma label_loop_ok:
  assumes "set us \<subseteq> set (ctx_uuids ctx)"
  shows "\<exists>ctx'. label_loop g us ctx b l
            = Inr (ctx', b + int (length (filter (\<lambda>u. u \<noteq> g) us)),
                         l + int (length (filter (\<lambda>u. u \<noteq> g) us)))
         \<and> ctx_uuids ctx' = ctx_uuids ctx
         \<and> (\<forall>u k. ctx_string_data ctx' (u, k)
               = (if u \<in> set us \<and> u \<noteq> g \<and> k = ''plant_part'' then Some ''bean''
                  else ctx_string_data ctx (u, k)))"
  using assms
proof (induction us arbitrary: ctx b l)
  case Nil
  then show ?case by simp
next
  case (Cons u us)
  show ?case
  proof (cases "u = g")
    case True
    from Cons.prems have "set us \<subseteq> set (ctx_uuids ctx)" by simp
    from Cons.IH[OF this, of b l] True show ?thesis by auto
  next
    case False
    define ctx1 where
      "ctx1 = ctx\<lparr>ctx_string_data := (ctx_string_data ctx)((u, ''plant_part'') \<mapsto> PLANT_PART_BEAN)\<rparr>"
    from Cons.prems have st: "setPrimitiveDataString ctx u ''plant_part'' PLANT_PART_BEAN = Inr ctx1"
      by (simp add: setPrimitiveDataString_ok ctx1_def)
    from Cons.prems have sub: "set us \<subseteq> set (ctx_uuids ctx1)" by (simp add: ctx1_def)
    from Cons.IH[OF sub, of "b + 1" "l + 1"] obtain ctx' where
      r: "label_loop g us ctx1 (b + 1) (l + 1)
            = Inr (ctx', b + 1 + int (length (filter (\<lambda>u. u \<noteq> g) us)),
                         l + 1 + int (length (filter (\<lambda>u. u \<noteq> g) us)))"
      and u: "ctx_uuids ctx' = ctx_uuids ctx1"
      and d: "\<forall>v k. ctx_string_data ctx' (v, k)
               = (if v \<in> set us \<and> v \<noteq> g \<and> k = ''plant_part'' then Some ''bean''
                  else ctx_string_data ctx1 (v, k))"
      by blast
    have "label_loop g (u # us) ctx b l
            = Inr (ctx', b + int (length (filter (\<lambda>u. u \<noteq> g) (u # us))),
                         l + int (length (filter (\<lambda>u. u \<noteq> g) (u # us))))"
      using False st r by simp
    moreover have "ctx_uuids ctx' = ctx_uuids ctx" using u by (simp add: ctx1_def)
    moreover have "\<forall>v k. ctx_string_data ctx' (v, k)
               = (if v \<in> set (u # us) \<and> v \<noteq> g \<and> k = ''plant_part'' then Some ''bean''
                  else ctx_string_data ctx (v, k))"
      using d False by (auto simp: ctx1_def PLANT_PART_BEAN_def)
    ultimately show ?thesis by blast
  qed
qed

lemma apply_species_labels_ok:
  assumes "g \<in> set (ctx_uuids ctx)"
  shows "\<exists>ctx'. apply_species_labels ctx g m
            = Inr ((1 + int (length (filter (\<lambda>u. u \<noteq> g) (ctx_uuids ctx))),
                    int (length (filter (\<lambda>u. u \<noteq> g) (ctx_uuids ctx))), 0), ctx')
         \<and> ctx_uuids ctx' = ctx_uuids ctx
         \<and> ctx_string_data ctx' (g, ''plant_part'') = Some ''ground''
         \<and> (\<forall>u \<in> set (ctx_uuids ctx). u \<noteq> g
               \<longrightarrow> ctx_string_data ctx' (u, ''plant_part'') = Some ''bean'')"
proof -
  define ctx1 where
    "ctx1 = ctx\<lparr>ctx_string_data := (ctx_string_data ctx)((g, ''plant_part'') \<mapsto> PLANT_PART_GROUND)\<rparr>"
  from assms have st: "setPrimitiveDataString ctx g ''plant_part'' PLANT_PART_GROUND = Inr ctx1"
    by (simp add: setPrimitiveDataString_ok ctx1_def)
  have sub: "set (ctx_uuids ctx) \<subseteq> set (ctx_uuids ctx1)" by (simp add: ctx1_def)
  from label_loop_ok[OF sub, of g 0 "0 + 1"] obtain ctx' where
    r: "label_loop g (ctx_uuids ctx) ctx1 0 (0 + 1)
          = Inr (ctx', 0 + int (length (filter (\<lambda>u. u \<noteq> g) (ctx_uuids ctx))),
                       0 + 1 + int (length (filter (\<lambda>u. u \<noteq> g) (ctx_uuids ctx))))"
    and u: "ctx_uuids ctx' = ctx_uuids ctx1"
    and d: "\<forall>v k. ctx_string_data ctx' (v, k)
               = (if v \<in> set (ctx_uuids ctx) \<and> v \<noteq> g \<and> k = ''plant_part'' then Some ''bean''
                  else ctx_string_data ctx1 (v, k))"
    by blast
  have "apply_species_labels ctx g m
            = Inr ((1 + int (length (filter (\<lambda>u. u \<noteq> g) (ctx_uuids ctx))),
                    int (length (filter (\<lambda>u. u \<noteq> g) (ctx_uuids ctx))), 0), ctx')"
    using st r by (simp add: apply_species_labels_def getAllUUIDs_def Let_def)
  moreover have "ctx_uuids ctx' = ctx_uuids ctx" using u by (simp add: ctx1_def)
  moreover have "ctx_string_data ctx' (g, ''plant_part'') = Some ''ground''"
    using d by (simp add: ctx1_def PLANT_PART_GROUND_def)
  moreover have "\<forall>u \<in> set (ctx_uuids ctx). u \<noteq> g
               \<longrightarrow> ctx_string_data ctx' (u, ''plant_part'') = Some ''bean''"
    using d by simp
  ultimately show ?thesis by blast
qed

lemma leaf_coefficients_cong:
  "(\<And>k. ctx_float_data ctx' (u, k) = ctx_float_data ctx (u, k))
   \<Longrightarrow> leaf_coefficients ctx' u b = leaf_coefficients ctx u b"
  by (simp add: leaf_coefficients_def split: option.splits)

lemma leaf_band_ok:
  assumes "u \<in> set (ctx_uuids ctx)"
  shows "\<exists>ctx'. leaf_band ctx u band = Inr ctx'
         \<and> ctx_uuids ctx' = ctx_uuids ctx
         \<and> leaf_coefficients ctx' u band
         \<and> (\<forall>b. leaf_coefficients ctx u b \<longrightarrow> leaf_coefficients ctx' u b)
         \<and> (\<forall>v k. v \<noteq> u \<longrightarrow> ctx_float_data ctx' (v, k) = ctx_float_data ctx (v, k))"
  using assms
  by (cases "LEAF_REFLECTANCE band"; cases "LEAF_TRANSMISSIVITY band")
     (auto simp: leaf_band_def setPrimitiveDataFloat_def leaf_coefficients_def split: option.splits)

lemma set_leaf_properties_ok:
  assumes "u \<in> set (ctx_uuids ctx)"
  shows "\<exists>ctx'. set_leaf_properties ctx u bands = Inr ctx'
         \<and> ctx_uuids ctx' = ctx_uuids ctx
         \<and> (\<forall>b \<in> set bands. leaf_coefficients ctx' u b)
         \<and> (\<forall>b. leaf_coefficients ctx u b \<longrightarrow> leaf_coefficients ctx' u b)
         \<and> (\<forall>v k. v \<noteq> u \<longrightarrow> ctx_float_data ctx' (v, k) = ctx_float_data ctx (v, k))"
  using assms
proof (induction bands arbitrary: ctx)
  case Nil
  then show ?case by simp
next
  case (Cons band bands)
  from leaf_band_ok[OF Cons.prems, of band] obtain ctx1 where
    s: "leaf_band ctx u band = Inr ctx1"
    and u1: "ctx_uuids ctx1 = ctx_uuids ctx"
    and e1: "leaf_coefficients ctx1 u band"
    and p1: "\<forall>b. leaf_coefficients ctx u b \<longrightarrow> leaf_coefficients ctx1 u b"
    and f1: "\<forall>v k. v \<noteq> u \<longrightarrow> ctx_float_data ctx1 (v, k) = ctx_float_data ctx (v, k)"
    by blast
  from Cons.prems u1 have m: "u \<in> set (ctx_uuids ctx1)" by simp
  from Cons.IH[OF m] obtain ctx' where
    r: "set_leaf_properties ctx1 u bands = Inr ctx'"
    and u2: "ctx_uuids ctx' = ctx_uuids ctx1"
    and e2: "\<forall>b \<in> set bands. leaf_coefficients ctx' u b"
    and p2: "\<forall>b. leaf_coefficients ctx1 u b \<longrightarrow> leaf_coefficients ctx' u b"
    and f2: "\<forall>v k. v \<noteq> u \<longrightarrow> ctx_float_data ctx' (v, k) = ctx_float_data ctx1 (v, k)"
    by blast
  have "set_leaf_properties ctx u (band # bands) = Inr ctx'" using s r by simp
  moreover have "ctx_uuids ctx' = ctx_uuids ctx" using u1 u2 by simp
  moreover have "\<forall>b \<in> set (band # bands). leaf_coefficients ctx' u b" using e1 e2 p2 by simp
  moreover have "\<forall>b. leaf_coefficients ctx u b \<longrightarrow> leaf_coefficients ctx' u b" using p1 p2 by simp
  moreover have "\<forall>v k. v \<noteq> u \<longrightarrow> ctx_float_data ctx' (v, k) = ctx_float_data ctx (v, k)"
    using f1 f2 by simp
  ultimately show ?case by blast
qed

lemma soil_band_ok:
  assumes "u \<in> set (ctx_uuids ctx)"
  shows "\<exists>ctx'. soil_band ctx u band = Inr ctx'
         \<and> ctx_uuids ctx' = ctx_uuids ctx
         \<and> (\<forall>v k. v \<noteq> u \<longrightarrow> ctx_float_data ctx' (v, k) = ctx_float_data ctx (v, k))"
  using assms
  by (cases "SOIL_REFLECTANCE band") (auto simp: soil_band_def setPrimitiveDataFloat_def)

lemma set_soil_properties_ok:
  assumes "u \<in> set (ctx_uuids ctx)"
  shows "\<exists>ctx'. set_soil_properties ctx u bands = Inr ctx'
         \<and> ctx_uuids ctx' = ctx_uuids ctx
         \<and> (\<forall>v k. v \<noteq> u \<longrightarrow> ctx_float_data ctx' (v, k) = ctx_float_data ctx (v, k))"
  using assms
proof (induction bands arbitrary: ctx)
  case Nil
  then show ?case by simp
next
  case (Cons band bands)
  from soil_band_ok[OF Cons.prems, of band] obtain ctx1 where
    s: "soil_band ctx u band = Inr ctx1"
    and u1: "ctx_uuids ctx1 = ctx_uuids ctx"
    and f1: "\<forall>v k. v \<noteq> u \<longrightarrow> ctx_float_data ctx1 (v, k) = ctx_float_data ctx (v, k)"
    by blast
  from Cons.prems u1 have m: "u \<in> set (ctx_uuids ctx1)" by simp
  from Cons.IH[OF m] obtain ctx' where
    r: "set_soil_properties ctx1 u bands = Inr ctx'"
    and u2: "ctx_uuids ctx' = ctx_uuids ctx1"
    and f2: "\<forall>v k. v \<noteq> u \<longrightarrow> ctx_float_data ctx' (v, k) = ctx_float_data ctx1 (v, k)"
    by blast
  have "set_soil_properties ctx u (band # bands) = Inr ctx'" using s r by simp
  moreover have "ctx_uuids ctx' = ctx_uuids ctx" using u1 u2 by simp
  moreover have "\<forall>v k. v \<noteq> u \<longrightarrow> ctx_float_data ctx' (v, k) = ctx_float_data ctx (v, k)"
    using f1 f2 by simp
  ultimately show ?case by blast
qed

lemma properties_loop_ok:
  assumes "set us \<subseteq> set (ctx_uuids ctx)"
  shows "\<exists>ctx'. properties_loop g bands us ctx = Inr ctx'
         \<and> ctx_uuids ctx' = ctx_uuids ctx
         \<and> (\<forall>t. t \<noteq> g \<longrightarrow> (t \<in> set us \<or> (\<forall>b \<in> set bands. leaf_coefficients ctx t b))
                \<longrightarrow> (\<forall>b \<in> set bands. leaf_coefficients ctx' t b))"
  using assms
proof (induction us arbitrary: ctx)
  case Nil
  then show ?case by simp
next
  case (Cons u us)
  from Cons.prems have uin: "u \<in> set (ctx_uuids ctx)" by simp
  have "\<exists>ctx1. (if u = g then set_soil_properties ctx u bands
                 else set_leaf_properties ctx u bands) = Inr ctx1
         \<and> ctx_uuids ctx1 = ctx_uuids ctx
         \<and> (\<forall>t. t \<noteq> g \<longrightarrow> (t = u \<or> (\<forall>b \<in> set bands. leaf_coefficients ctx t b))
                \<longrightarrow> (\<forall>b \<in> set bands. leaf_coefficients ctx1 t b))"
  proof (cases "u = g")
    case True
    from set_soil_properties_ok[OF uin, of bands] obtain ctx1 where
      s: "set_soil_properties ctx u bands = Inr ctx1"
      and u1: "ctx_uuids ctx1 = ctx_uuids ctx"
      and f1: "\<forall>v k. v \<noteq> u \<longrightarrow> ctx_float_data ctx1 (v, k) = ctx_float_data ctx (v, k)"
      by blast
    have "leaf_coefficients ctx1 t b = leaf_coefficients ctx t b" if "t \<noteq> g" for t b
      using f1 that True by (intro leaf_coefficients_cong) simp
    with s u1 True show ?thesis by auto
  next
    case False
    from set_leaf_properties_ok[OF uin, of bands] obtain ctx1 where
      s: "set_leaf_properties ctx u bands = Inr ctx1"
      and u1: "ctx_uuids ctx1 = ctx_uuids ctx"
      and e1: "\<forall>b \<in> set bands. leaf_coefficients ctx1 u b"
      and f1: "\<forall>v k. v \<noteq> u \<longrightarrow> ctx_float_data ctx1 (v, k) = ctx_float_data ctx (v, k)"
      by blast
    have eqv: "leaf_coefficients ctx1 t b = leaf_coefficients ctx t b" if "t \<noteq> u" for t b
      using f1 that by (intro leaf_coefficients_cong) simp
    have "\<forall>b \<in> set bands. leaf_coefficients ctx1 t b"
      if "t = u \<or> (\<forall>b \<in> set bands. leaf_coefficients ctx t b)" for t
      using that e1 eqv by (cases "t = u") auto
    with s u1 False show ?thesis by auto
  qed
  then obtain ctx1 where
    s: "(if u = g then set_soil_properties ctx u bands
         else set_leaf_properties ctx u bands) = Inr ctx1"
    and u1: "ctx_uuids ctx1 = ctx_uuids ctx"
    and h1: "\<forall>t. t \<noteq> g \<longrightarrow> (t = u \<or> (\<forall>b \<in> set bands. leaf_coefficients ctx t b))
                \<longrightarrow> (\<forall>b \<in> set bands. leaf_coefficients ctx1 t b)"
    by blast
  from Cons.prems u1 have sub: "set us \<subseteq> set (ctx_uuids ctx1)" by simp
  from Cons.IH[OF sub] obtain ctx' where
    r: "properties_loop g bands us ctx1 = Inr ctx'"
    and u2: "ctx_uuids ctx' = ctx_uuids ctx1"
    and h2: "\<forall>t. t \<noteq> g \<longrightarrow> (t \<in> set us \<or> (\<forall>b \<in> set bands. leaf_coefficients ctx1 t b))
                \<longrightarrow> (\<forall>b \<in> set bands. leaf_coefficients ctx' t b)"
    by blast
  have "properties_loop g bands (u # us) ctx = Inr ctx'" using s r by simp
  moreover have "ctx_uuids ctx' = ctx_uuids ctx" using u1 u2 by simp
  moreover have "\<forall>t. t \<noteq> g \<longrightarrow> (t \<in> set (u # us) \<or> (\<forall>b \<in> set bands. leaf_coefficients ctx t b))
                \<longrightarrow> (\<forall>b \<in> set bands. leaf_coefficients ctx' t b)"
    using h1 h2 by (metis set_ConsD)
  ultimately show ?case by blast
qed

lemma apply_radiative_properties_ok:
  "\<exists>ctx'. apply_radiative_properties ctx g (Some bands) = Inr (int (length (ctx_uuids ctx)), ctx')
     \<and> (\<forall>t \<in> set (ctx_uuids ctx). t \<noteq> g \<longrightarrow> (\<forall>b \<in> set bands. leaf_coefficients ctx' t b))"
proof -
  from properties_loop_ok[OF subset_refl, of g bands ctx] obtain ctx' where
    "properties_loop g bands (ctx_uuids ctx) ctx = Inr ctx'"
    "\<forall>t. t \<noteq> g \<longrightarrow> (t \<in> set (ctx_uuids ctx) \<or> (\<forall>b \<in> set bands. leaf_coefficients ctx t b))
                \<longrightarrow> (\<forall>b \<in> set bands. leaf_coefficients ctx' t b)"
    by blast
  then show ?thesis
    by (intro exI[of _ ctx']) (simp add: apply_radiative_properties_def getAllUUIDs_def)
qed


lemma create_soil_plane_textured:
  "create_soil_plane ctx width length' (Some path) True tile_ok subdivisions margin
     = Inr (ctx_next_uuid ctx, margin,
            ctx\<lparr>ctx_uuids := ctx_uuids ctx @ [ctx_next_uuid ctx, ctx_next_uuid ctx + 1, ctx_next_uuid ctx + 2],
                ctx_next_uuid := ctx_next_uuid ctx + 3\<rparr>)"
  by (simp add: create_soil_plane_def addPatch_def addTrianglesFromArraysTextured_def
        add_primitives_def upt_rec[of "ctx_next_uuid ctx"] upt_rec[of "Suc (ctx_next_uuid ctx)"]
        upt_rec[of "Suc (Suc (ctx_next_uuid ctx))"] numeral_2_eq_2 numeral_3_eq_3)

section \<open>Lemmas about the camera height\<close>

lemma sqrt6_upper: "sqrt 6 < 245 / 100"
  by (rule real_less_lsqrt) (simp_all add: power2_eq_square)

lemma nadir_height_default: "calculate_nadir_camera_height 1 1 60 (11/10) = 11 * sqrt 6 / 20"
proof -
  have t: "tan (np_radians 60 / 2) = 1 / sqrt 3"
    using tan_30 by (simp add: np_radians_def)
  have m: "sqrt 2 * sqrt 3 = sqrt 6"
    using real_sqrt_mult[of 2 3] by simp
  have "calculate_nadir_camera_height 1 1 60 (11/10) = (sqrt 2 / 2) / (1 / sqrt 3) * (11/10)"
    by (simp add: calculate_nadir_camera_height_def Let_def t)
  also have "\<dots> = 11 * (sqrt 2 * sqrt 3) / 20" by simp
  finally show ?thesis by (simp only: m)
qed

section \<open>Lemmas about the orchestrator\<close>


lemma run_calls_raise:
  "(\<forall>c \<in> set cs. rs c = None) \<Longrightarrow> rs c' = Some e
   \<Longrightarrow> run_calls rs (cs @ c' # rest) lg = (lg @ map Completed cs, Some e)"
  by (induction cs arbitrary: lg) simp_all


section \<open>Determinism of the position generator\<close>

text \<open>
  Claim C6. Two invocations of \<open>generate_intercrop_positions\<close> with identical arguments
  produce identical results, whatever state the global generator of numpy was left in
  before each call: the function reseeds it first.
\<close>

theorem generate_intercrop_positions_deterministic:
  "generate_intercrop_positions fmul R g0 plot_width plot_length n_rows row_spacing bean_density
     wheat_density bean_emergence wheat_emergence seed
   = generate_intercrop_positions fmul R g0' plot_width plot_length n_rows row_spacing bean_density
     wheat_density bean_emergence wheat_emergence seed"
  by (simp add: generate_intercrop_positions_def generate_intercrop_rows_def np_random_seed_def)

section \<open>The count law\<close>

text \<open>
  Claim C1, as stated, fails: the source truncates the seeds sown to an integer before
  it applies the emergence rate. With a density of 1.5 seeds per square metre on one
  square metre and an emergence of 0.75, one seed is sown and \<open>int(0.75) = 0\<close> plants
  emerge, while \<open>\<lfloor>1.5 \<times> 1 \<times> 0.75\<rfloor> = 1\<close>.
\<close>

theorem emerged_count_single_floor_counterexample:
  "(case generate_intercrop_positions exact_mul lcg_prng 0 1 1 1 (1/4) (3/2) 0 (3/4) (1/2) 42 of
      Inl e \<Rightarrow> False
    | Inr (ps, g) \<Rightarrow> int (n_species ''bean'' ps) \<noteq> \<lfloor>(3/2) * (1 * 1) * (3/4) :: real\<rfloor>)"
proof -
  have "generate_intercrop_positions exact_mul lcg_prng 0 1 1 1 (1/4) (3/2) 0 (3/4) (1/2) 42 = Inr ([], 42)"
    by (simp add: generate_intercrop_positions_def generate_intercrop_rows_def np_random_seed_def
        exact_mul_def lcg_prng_def py_int_def py_repeat_def lcg_shuffle_def np_linspace_def enumerate_eq_zip
        n_plants_this_row_def)
  then show ?thesis by (simp add: n_species_def)
qed

text \<open>
  Claim C1, amended. For a seed the generator accepts, at least one row, a plot of
  positive width and length whose area, as the machine computes it, is not zero, and
  non-negative densities and emergence rates, the function returns; the number of
  positions of each species is \<open>int(int(density \<times> plot_area) \<times> emergence_rate)\<close>, the
  seeds sown being truncated before the emergence rate is applied and every product
  being the machine's rounded product; the number of positions is the sum of the two.
\<close>

theorem emerged_count_law:
  assumes "rng_seed R seed = Some g1"
    and "shuffle_permutes R"
    and "1 \<le> n_rows"
    and "keeps_sign fmul"
    and "0 < plot_width" "0 < plot_length"
    and "fmul plot_width plot_length \<noteq> 0"
    and "0 \<le> bean_density" "0 \<le> wheat_density" "0 \<le> bean_emergence" "0 \<le> wheat_emergence"
  shows "\<exists>ps g. generate_intercrop_positions fmul R g0 plot_width plot_length n_rows row_spacing
                  bean_density wheat_density bean_emergence wheat_emergence seed = Inr (ps, g)
     \<and> int (n_species ''bean'' ps)
         = \<lfloor>fmul (real_of_int \<lfloor>fmul bean_density (fmul plot_width plot_length)\<rfloor>) bean_emergence\<rfloor>
     \<and> int (n_species ''wheat'' ps)
         = \<lfloor>fmul (real_of_int \<lfloor>fmul wheat_density (fmul plot_width plot_length)\<rfloor>) wheat_emergence\<rfloor>
     \<and> int (length ps)
         = \<lfloor>fmul (real_of_int \<lfloor>fmul bean_density (fmul plot_width plot_length)\<rfloor>) bean_emergence\<rfloor>
           + \<lfloor>fmul (real_of_int \<lfloor>fmul wheat_density (fmul plot_width plot_length)\<rfloor>) wheat_emergence\<rfloor>"
proof -
  have area: "0 \<le> fmul plot_width plot_length"
    using assms(4,5,6) by (simp add: keeps_sign_def)
  note b = emerged_count_floor[OF assms(4) assms(8) area assms(10)]
  note w = emerged_count_floor[OF assms(4) assms(9) area assms(11)]
  from generate_positions_counts[OF assms, of g0 row_spacing] obtain ps g where
    "generate_intercrop_positions fmul R g0 plot_width plot_length n_rows row_spacing
       bean_density wheat_density bean_emergence wheat_emergence seed = Inr (ps, g)"
    "n_species ''bean'' ps = nat (emerged_count fmul bean_density (fmul plot_width plot_length) bean_emergence)"
    "n_species ''wheat'' ps = nat (emerged_count fmul wheat_density (fmul plot_width plot_length) wheat_emergence)"
    "length ps = nat (emerged_count fmul bean_density (fmul plot_width plot_length) bean_emergence)
               + nat (emerged_count fmul wheat_density (fmul plot_width plot_length) wheat_emergence)"
    by blast
  then show ?thesis
    using b w by (intro exI[of _ ps] exI[of _ g]) simp
qed

theorem emerged_count_law_witness:
  "\<exists>ps g. generate_intercrop_positions exact_mul lcg_prng 0 1 1 4 (21/100) 36 0 (7/8) (4/5) 42 = Inr (ps, g)
     \<and> int (n_species ''bean'' ps) = 31 \<and> int (n_species ''wheat'' ps) = 0 \<and> int (length ps) = 31"
proof -
  have s: "rng_seed lcg_prng 42 = Some 42" by (simp add: lcg_prng_def)
  from emerged_count_law[OF s lcg_shuffle_permutes _ exact_mul_keeps_sign,
         of 4 1 1 36 0 "7/8" "4/5" 0 "21/100"]
  show ?thesis by (simp add: exact_mul_def)
qed

section \<open>The bounds law\<close>

text \<open>
  Claim C7, as stated, fails on a plot narrower than 10 cm: there \<open>0.05\<close> is larger than
  \<open>plot_width - 0.05\<close> and \<open>np.clip\<close> returns its upper bound. On a plot 8 cm wide the
  emitted \<open>x\<close> is \<open>0.03\<close>, below \<open>0.05\<close>.
\<close>

theorem lower_bound_narrow_plot_counterexample:
  "(case generate_intercrop_positions exact_mul lcg_prng 0 (8/100) 1 1 (1/4) 30 0 (1/2) (1/2) 42 of
      Inl e \<Rightarrow> False
    | Inr (ps, g) \<Rightarrow> ps \<noteq> [] \<and> fst (snd (hd ps)) < 0.05)"
  by (simp add: generate_intercrop_positions_def generate_intercrop_rows_def np_random_seed_def
        exact_mul_def lcg_prng_def py_int_def py_repeat_def lcg_shuffle_def np_linspace_def enumerate_eq_zip
        n_plants_this_row_def py_index_def lcg_uniform_def lcg_next_def np_clip_def Let_def)

text \<open>
  Claim C7, amended. On a plot at least 10 cm wide and 10 cm long, every tuple
  \<open>(species, x, y)\<close> that \<open>generate_intercrop_positions\<close> emits satisfies
  \<open>0.05 \<le> x \<le> plot_width - 0.05\<close> and \<open>0.05 \<le> y \<le> plot_length - 0.05\<close>.
\<close>

theorem positions_within_bounds:
  assumes "generate_intercrop_positions fmul R g0 plot_width plot_length n_rows row_spacing
             bean_density wheat_density bean_emergence wheat_emergence seed = Inr (ps, g)"
    and "(species, x, y) \<in> set ps"
    and "0.1 \<le> plot_width" "0.1 \<le> plot_length"
  shows "0.05 \<le> x \<and> x \<le> plot_width - 0.05 \<and> 0.05 \<le> y \<and> y \<le> plot_length - 0.05"
proof -
  from generate_positions_within[OF assms(1)] assms(2)
  have "within_margin plot_width plot_length (species, x, y)" by blast
  with assms(3,4) show ?thesis by (simp add: within_margin_def)
qed

theorem positions_within_bounds_witness:
  "generate_intercrop_positions exact_mul lcg_prng 0 1 1 1 (1/4) 2 0 (1/2) (1/2) 42
     = Inr ([(''bean'', 1533 / 3125, 25759 / 100000)], 1000676753)
   \<and> (0.05::real) \<le> 1533 / 3125 \<and> (1533 / 3125 :: real) \<le> 1 - 0.05
   \<and> (0.05::real) \<le> 25759 / 100000 \<and> (25759 / 100000 :: real) \<le> 1 - 0.05"
proof -
  have run: "generate_intercrop_positions exact_mul lcg_prng 0 1 1 1 (1/4) 2 0 (1/2) (1/2) 42
     = Inr ([(''bean'', 1533 / 3125, 25759 / 100000)], 1000676753)"
    by (simp add: generate_intercrop_positions_def generate_intercrop_rows_def np_random_seed_def
        exact_mul_def lcg_prng_def py_int_def py_repeat_def lcg_shuffle_def np_linspace_def enumerate_eq_zip
        n_plants_this_row_def py_index_def lcg_uniform_def lcg_next_def np_clip_def Let_def)
  have mem: "(''bean'', 1533 / 3125 :: real, 25759 / 100000 :: real)
               \<in> set [(''bean'', 1533 / 3125, 25759 / 100000)]" by simp
  have w: "(0.1::real) \<le> 1" by simp
  from positions_within_bounds[OF run mem w w] run show ?thesis by simp
qed

section \<open>Row balance\<close>

text \<open>
  Claim C8. With at least one row (and a seed the generator accepts, a plot of positive
  size and non-zero computed area, non-negative densities and emergence rates), row \<open>i\<close> receives
  \<open>total // n_rows\<close> plants, plus one when \<open>i < total % n_rows\<close>; two rows differ by at
  most one plant and the row counts sum to \<open>total\<close>. The positions returned are the rows
  in row order.
\<close>

theorem row_balance:
  assumes "rng_seed R seed = Some g1"
    and "shuffle_permutes R"
    and "1 \<le> n_rows"
    and "keeps_sign fmul"
    and "0 < plot_width" "0 < plot_length"
    and "fmul plot_width plot_length \<noteq> 0"
    and "0 \<le> bean_density" "0 \<le> wheat_density" "0 \<le> bean_emergence" "0 \<le> wheat_emergence"
    and "total_plants = emerged_count fmul bean_density (fmul plot_width plot_length) bean_emergence
               + emerged_count fmul wheat_density (fmul plot_width plot_length) wheat_emergence"
  shows "\<exists>rows g.
       generate_intercrop_rows fmul R g0 plot_width plot_length n_rows row_spacing
         bean_density wheat_density bean_emergence wheat_emergence seed = Inr (rows, g)
     \<and> generate_intercrop_positions fmul R g0 plot_width plot_length n_rows row_spacing
         bean_density wheat_density bean_emergence wheat_emergence seed = Inr (concat rows, g)
     \<and> length rows = nat n_rows
     \<and> (\<forall>i < nat n_rows. int (length (rows ! i))
            = total_plants div n_rows + (if int i < total_plants mod n_rows then 1 else 0))
     \<and> (\<forall>i < nat n_rows. \<forall>j < nat n_rows. length (rows ! i) \<le> length (rows ! j) + 1)
     \<and> int (sum_list (map length rows)) = total_plants"
proof -
  have area: "0 \<le> fmul plot_width plot_length"
    using assms(4,5,6) by (simp add: keeps_sign_def)
  have b: "0 \<le> emerged_count fmul bean_density (fmul plot_width plot_length) bean_emergence"
    by (rule emerged_count_floor(2)[OF assms(4) assms(8) area assms(10)])
  have w: "0 \<le> emerged_count fmul wheat_density (fmul plot_width plot_length) wheat_emergence"
    by (rule emerged_count_floor(2)[OF assms(4) assms(9) area assms(11)])
  have t0: "0 \<le> total_plants" using b w assms(12) by simp
  have q0: "0 \<le> total_plants div n_rows" using t0 assms(3) by (simp add: pos_imp_zdiv_nonneg_iff)
  from generate_rows_ok[OF assms(1) assms(3) b w assms(2), of g0 row_spacing] obtain rows g where
    gr: "generate_intercrop_rows fmul R g0 plot_width plot_length n_rows row_spacing
           bean_density wheat_density bean_emergence wheat_emergence seed = Inr (rows, g)"
    and ml: "map length rows = map (row_quota (total_plants div n_rows) (total_plants mod n_rows)) [0..<nat n_rows]"
    unfolding assms(12) by blast
  have gp: "generate_intercrop_positions fmul R g0 plot_width plot_length n_rows row_spacing
         bean_density wheat_density bean_emergence wheat_emergence seed = Inr (concat rows, g)"
    using gr assms(7) by (simp add: generate_intercrop_positions_def)
  have ln: "length rows = nat n_rows"
    using arg_cong[OF ml, of length] by simp
  have each: "length (rows ! i) = row_quota (total_plants div n_rows) (total_plants mod n_rows) i"
    if "i < nat n_rows" for i
  proof -
    have "length (rows ! i) = map length rows ! i" using that ln by simp
    also have "\<dots> = row_quota (total_plants div n_rows) (total_plants mod n_rows) i"
      using that by (simp only: ml) simp
    finally show ?thesis .
  qed
  have quota: "int (row_quota (total_plants div n_rows) (total_plants mod n_rows) i)
      = total_plants div n_rows + (if int i < total_plants mod n_rows then 1 else 0)" for i
    using q0 by (simp add: row_quota_def n_plants_this_row_def)
  have c1: "\<forall>i < nat n_rows. int (length (rows ! i))
            = total_plants div n_rows + (if int i < total_plants mod n_rows then 1 else 0)"
    using each quota by simp
  have c2: "\<forall>i < nat n_rows. \<forall>j < nat n_rows. length (rows ! i) \<le> length (rows ! j) + 1"
  proof (intro allI impI)
    fix i j assume "i < nat n_rows" "j < nat n_rows"
    with c1 have "int (length (rows ! i)) \<le> total_plants div n_rows + 1"
      and "total_plants div n_rows \<le> int (length (rows ! j))" by simp_all
    then show "length (rows ! i) \<le> length (rows ! j) + 1" by linarith
  qed
  have "int (sum_list (map length rows))
        = (\<Sum>j\<leftarrow>[0..<nat n_rows]. int (row_quota (total_plants div n_rows) (total_plants mod n_rows) j))"
    by (simp only: ml int_sum_list_map)
  also have "\<dots> = total_plants" by (rule quota_total[OF assms(3) t0])
  finally have c3: "int (sum_list (map length rows)) = total_plants" .
  from gr gp ln c1 c2 c3 show ?thesis by blast
qed

theorem row_balance_witness:
  "\<exists>rows g.
       generate_intercrop_rows exact_mul lcg_prng 0 1 1 4 (21/100) 36 0 (7/8) (4/5) 42 = Inr (rows, g)
     \<and> generate_intercrop_positions exact_mul lcg_prng 0 1 1 4 (21/100) 36 0 (7/8) (4/5) 42
         = Inr (concat rows, g)
     \<and> length rows = 4
     \<and> (\<forall>i < 4. int (length (rows ! i)) = 7 + (if int i < 3 then 1 else 0))
     \<and> (\<forall>i < 4. \<forall>j < 4. length (rows ! i) \<le> length (rows ! j) + 1)
     \<and> int (sum_list (map length rows)) = 31"
proof -
  have s: "rng_seed lcg_prng 42 = Some 42" by (simp add: lcg_prng_def)
  have t: "(31::int) = emerged_count exact_mul 36 (exact_mul 1 1) (7/8)
                       + emerged_count exact_mul 0 (exact_mul 1 1) (4/5)"
    by (simp add: emerged_count_def py_int_def exact_mul_def)
  from row_balance[OF s lcg_shuffle_permutes _ exact_mul_keeps_sign _ _ _ _ _ _ _ t, of 4 0 "21/100"]
  show ?thesis by (simp add: exact_mul_def)
qed

section \<open>Seed independence of the totals\<close>

text \<open>
  Claim C9. For two seeds that the generator accepts and otherwise identical arguments
  (at least one row, a plot of positive size and non-zero computed area, non-negative
  densities and emergence rates), both invocations return and they emit the same number of positions of each
  species.
\<close>

theorem seed_independent_counts:
  assumes "rng_seed R seed1 = Some g1" "rng_seed R seed2 = Some g2"
    and "shuffle_permutes R"
    and "1 \<le> n_rows"
    and "keeps_sign fmul"
    and "0 < plot_width" "0 < plot_length"
    and "fmul plot_width plot_length \<noteq> 0"
    and "0 \<le> bean_density" "0 \<le> wheat_density" "0 \<le> bean_emergence" "0 \<le> wheat_emergence"
  shows "\<exists>ps1 ga ps2 gb.
       generate_intercrop_positions fmul R g0 plot_width plot_length n_rows row_spacing
         bean_density wheat_density bean_emergence wheat_emergence seed1 = Inr (ps1, ga)
     \<and> generate_intercrop_positions fmul R g0' plot_width plot_length n_rows row_spacing
         bean_density wheat_density bean_emergence wheat_emergence seed2 = Inr (ps2, gb)
     \<and> n_species ''bean'' ps1 = n_species ''bean'' ps2
     \<and> n_species ''wheat'' ps1 = n_species ''wheat'' ps2
     \<and> length ps1 = length ps2"
proof -
  from generate_positions_counts[OF assms(1) assms(3-12), of g0 row_spacing] obtain ps1 ga where
    a: "generate_intercrop_positions fmul R g0 plot_width plot_length n_rows row_spacing
         bean_density wheat_density bean_emergence wheat_emergence seed1 = Inr (ps1, ga)"
       "n_species ''bean'' ps1 = nat (emerged_count fmul bean_density (fmul plot_width plot_length) bean_emergence)"
       "n_species ''wheat'' ps1 = nat (emerged_count fmul wheat_density (fmul plot_width plot_length) wheat_emergence)"
       "length ps1 = nat (emerged_count fmul bean_density (fmul plot_width plot_length) bean_emergence)
               + nat (emerged_count fmul wheat_density (fmul plot_width plot_length) wheat_emergence)"
    by blast
  from generate_positions_counts[OF assms(2) assms(3-12), of g0' row_spacing] obtain ps2 gb where
    b: "generate_intercrop_positions fmul R g0' plot_width plot_length n_rows row_spacing
         bean_density wheat_density bean_emergence wheat_emergence seed2 = Inr (ps2, gb)"
       "n_species ''bean'' ps2 = nat (emerged_count fmul bean_density (fmul plot_width plot_length) bean_emergence)"
       "n_species ''wheat'' ps2 = nat (emerged_count fmul wheat_density (fmul plot_width plot_length) wheat_emergence)"
       "length ps2 = nat (emerged_count fmul bean_density (fmul plot_width plot_length) bean_emergence)
               + nat (emerged_count fmul wheat_density (fmul plot_width plot_length) wheat_emergence)"
    by blast
  from a b show ?thesis by simp
qed

theorem seed_independent_counts_witness:
  "\<exists>ps1 ga ps2 gb.
       generate_intercrop_positions exact_mul lcg_prng 0 1 1 4 (21/100) 36 18 (7/8) (4/5) 42 = Inr (ps1, ga)
     \<and> generate_intercrop_positions exact_mul lcg_prng 5 1 1 4 (21/100) 36 18 (7/8) (4/5) 7 = Inr (ps2, gb)
     \<and> n_species ''bean'' ps1 = n_species ''bean'' ps2
     \<and> n_species ''wheat'' ps1 = n_species ''wheat'' ps2
     \<and> length ps1 = length ps2"
proof -
  have s1: "rng_seed lcg_prng 42 = Some 42" by (simp add: lcg_prng_def)
  have s2: "rng_seed lcg_prng 7 = Some 7" by (simp add: lcg_prng_def)
  from seed_independent_counts[OF s1 s2 lcg_shuffle_permutes _ exact_mul_keeps_sign,
         of 4 1 1 36 18 "7/8" "4/5" 0 "21/100" 5]
  show ?thesis by (simp add: exact_mul_def)
qed

section \<open>The label assignor\<close>

text \<open>
  Claim C2. On a ground identity that the scene holds, \<open>apply_species_labels\<close> returns;
  it gives the ground identity the class \<open>ground\<close> and every other identity of the scene
  the class \<open>bean\<close>; the wheat count it returns is 0; and neither the store it leaves nor
  the counts depend on the species map passed to it.
\<close>

theorem apply_species_labels_ignores_species_map:
  assumes "ground_uuid \<in> set (getAllUUIDs ctx)"
  shows "\<exists>ctx' labeled_count bean_primitives.
       apply_species_labels ctx ground_uuid plant_species_map
         = Inr ((labeled_count, bean_primitives, 0), ctx')
     \<and> ctx_string_data ctx' (ground_uuid, ''plant_part'') = Some ''ground''
     \<and> (\<forall>uuid \<in> set (getAllUUIDs ctx). uuid \<noteq> ground_uuid
           \<longrightarrow> ctx_string_data ctx' (uuid, ''plant_part'') = Some ''bean'')
     \<and> apply_species_labels ctx ground_uuid other_species_map
         = apply_species_labels ctx ground_uuid plant_species_map"
proof -
  from assms have g: "ground_uuid \<in> set (ctx_uuids ctx)" by (simp add: getAllUUIDs_def)
  have same: "apply_species_labels ctx ground_uuid other_species_map
         = apply_species_labels ctx ground_uuid plant_species_map"
    by (simp add: apply_species_labels_def)
  from apply_species_labels_ok[OF g, of plant_species_map] same show ?thesis
    unfolding getAllUUIDs_def by blast
qed

theorem apply_species_labels_ignores_species_map_witness:
  "\<exists>ctx' labeled_count bean_primitives.
       apply_species_labels
         \<lparr>ctx_uuids = [0, 1, 2], ctx_next_uuid = 3,
          ctx_string_data = (\<lambda>k. None), ctx_float_data = (\<lambda>k. None)\<rparr>
         0 [1 \<mapsto> 1, 2 \<mapsto> 2]
         = Inr ((labeled_count, bean_primitives, 0), ctx')
     \<and> ctx_string_data ctx' (0, ''plant_part'') = Some ''ground''
     \<and> ctx_string_data ctx' (1, ''plant_part'') = Some ''bean''
     \<and> ctx_string_data ctx' (2, ''plant_part'') = Some ''bean''"
proof -
  have g: "(0::nat) \<in> set (getAllUUIDs
         \<lparr>ctx_uuids = [0, 1, 2], ctx_next_uuid = 3,
          ctx_string_data = (\<lambda>k. None), ctx_float_data = (\<lambda>k. None)\<rparr>)"
    by (simp add: getAllUUIDs_def)
  from apply_species_labels_ignores_species_map[OF g, of "[1 \<mapsto> 1, 2 \<mapsto> 2]" "[1 \<mapsto> 1, 2 \<mapsto> 2]"]
  show ?thesis by (simp add: getAllUUIDs_def)
qed

section \<open>The textured soil surface\<close>

text \<open>
  Claim C10. When the soil texture is found (and the engine accepts the textured
  triangles), \<open>create_soil_plane\<close> adds two triangles whose identities differ from the
  ground identity it returns. In every scene that still holds these primitives,
  \<open>apply_species_labels\<close> gives the two triangles the class \<open>bean\<close> and
  \<open>apply_radiative_properties\<close> gives them the leaf reflectance and transmissivity of every
  band it is called with, since both functions compare with the returned ground identity
  only. The leaf coefficients differ from the ground ones in every band of the tables.
\<close>

theorem textured_soil_treated_as_vegetation:
  "(\<exists>ground_uuid ctx1 t1 t2.
       create_soil_plane ctx0 width length' (Some path) True tile_ok subdivisions margin
         = Inr (ground_uuid, margin, ctx1)
     \<and> getAllUUIDs ctx1 = getAllUUIDs ctx0 @ [ground_uuid, t1, t2]
     \<and> t1 \<noteq> ground_uuid \<and> t2 \<noteq> ground_uuid
     \<and> (\<forall>ctx. set (getAllUUIDs ctx1) \<subseteq> set (getAllUUIDs ctx) \<longrightarrow>
           (\<exists>counts ctx'. apply_species_labels ctx ground_uuid plant_species_map = Inr (counts, ctx')
               \<and> ctx_string_data ctx' (ground_uuid, ''plant_part'') = Some PLANT_PART_GROUND
               \<and> ctx_string_data ctx' (t1, ''plant_part'') = Some PLANT_PART_BEAN
               \<and> ctx_string_data ctx' (t2, ''plant_part'') = Some PLANT_PART_BEAN)
         \<and> (\<exists>n ctx'. apply_radiative_properties ctx ground_uuid (Some bands) = Inr (n, ctx')
               \<and> (\<forall>band \<in> set bands. leaf_coefficients ctx' t1 band
                                      \<and> leaf_coefficients ctx' t2 band))))
   \<and> PLANT_PART_BEAN \<noteq> PLANT_PART_GROUND
   \<and> (\<forall>band r. LEAF_REFLECTANCE band = Some r \<longrightarrow> SOIL_REFLECTANCE band \<noteq> Some r)
   \<and> (\<forall>band t. LEAF_TRANSMISSIVITY band = Some t \<longrightarrow> t \<noteq> 0)"
proof -
  define g where "g = ctx_next_uuid ctx0"
  define ctx1 where
    "ctx1 = ctx0\<lparr>ctx_uuids := ctx_uuids ctx0 @ [g, g + 1, g + 2], ctx_next_uuid := g + 3\<rparr>"
  have cr: "create_soil_plane ctx0 width length' (Some path) True tile_ok subdivisions margin
         = Inr (g, margin, ctx1)"
    unfolding g_def ctx1_def by (rule create_soil_plane_textured)
  have us: "getAllUUIDs ctx1 = getAllUUIDs ctx0 @ [g, g + 1, g + 2]"
    by (simp add: getAllUUIDs_def ctx1_def)
  have inner: "(\<exists>counts ctx'. apply_species_labels ctx g plant_species_map = Inr (counts, ctx')
               \<and> ctx_string_data ctx' (g, ''plant_part'') = Some PLANT_PART_GROUND
               \<and> ctx_string_data ctx' (g + 1, ''plant_part'') = Some PLANT_PART_BEAN
               \<and> ctx_string_data ctx' (g + 2, ''plant_part'') = Some PLANT_PART_BEAN)
         \<and> (\<exists>n ctx'. apply_radiative_properties ctx g (Some bands) = Inr (n, ctx')
               \<and> (\<forall>band \<in> set bands. leaf_coefficients ctx' (g + 1) band
                                      \<and> leaf_coefficients ctx' (g + 2) band))"
    if sub: "set (getAllUUIDs ctx1) \<subseteq> set (getAllUUIDs ctx)" for ctx
  proof -
    from sub have mem: "g \<in> set (ctx_uuids ctx)" "g + 1 \<in> set (ctx_uuids ctx)"
      "g + 2 \<in> set (ctx_uuids ctx)"
      by (simp_all add: us) (simp_all add: getAllUUIDs_def)
    from apply_species_labels_ok[OF mem(1), of plant_species_map] mem
    have a: "\<exists>counts ctx'. apply_species_labels ctx g plant_species_map = Inr (counts, ctx')
               \<and> ctx_string_data ctx' (g, ''plant_part'') = Some PLANT_PART_GROUND
               \<and> ctx_string_data ctx' (g + 1, ''plant_part'') = Some PLANT_PART_BEAN
               \<and> ctx_string_data ctx' (g + 2, ''plant_part'') = Some PLANT_PART_BEAN"
      by (auto simp: PLANT_PART_GROUND_def PLANT_PART_BEAN_def)
    from apply_radiative_properties_ok[of ctx g bands] mem
    have b: "\<exists>n ctx'. apply_radiative_properties ctx g (Some bands) = Inr (n, ctx')
               \<and> (\<forall>band \<in> set bands. leaf_coefficients ctx' (g + 1) band
                                      \<and> leaf_coefficients ctx' (g + 2) band)"
      by auto
    from a b show ?thesis by blast
  qed
  have first: "\<exists>ground_uuid ctx1 t1 t2.
       create_soil_plane ctx0 width length' (Some path) True tile_ok subdivisions margin
         = Inr (ground_uuid, margin, ctx1)
     \<and> getAllUUIDs ctx1 = getAllUUIDs ctx0 @ [ground_uuid, t1, t2]
     \<and> t1 \<noteq> ground_uuid \<and> t2 \<noteq> ground_uuid
     \<and> (\<forall>ctx. set (getAllUUIDs ctx1) \<subseteq> set (getAllUUIDs ctx) \<longrightarrow>
           (\<exists>counts ctx'. apply_species_labels ctx ground_uuid plant_species_map = Inr (counts, ctx')
               \<and> ctx_string_data ctx' (ground_uuid, ''plant_part'') = Some PLANT_PART_GROUND
               \<and> ctx_string_data ctx' (t1, ''plant_part'') = Some PLANT_PART_BEAN
               \<and> ctx_string_data ctx' (t2, ''plant_part'') = Some PLANT_PART_BEAN)
         \<and> (\<exists>n ctx'. apply_radiative_properties ctx ground_uuid (Some bands) = Inr (n, ctx')
               \<and> (\<forall>band \<in> set bands. leaf_coefficients ctx' t1 band
                                      \<and> leaf_coefficients ctx' t2 band)))"
    apply (rule exI[of _ g], rule exI[of _ ctx1], rule exI[of _ "g + 1"], rule exI[of _ "g + 2"])
    using cr us inner by simp
  have second: "PLANT_PART_BEAN \<noteq> PLANT_PART_GROUND"
    by (simp add: PLANT_PART_BEAN_def PLANT_PART_GROUND_def)
  have third: "\<forall>band r. LEAF_REFLECTANCE band = Some r \<longrightarrow> SOIL_REFLECTANCE band \<noteq> Some r"
    by (auto simp: LEAF_REFLECTANCE_def SOIL_REFLECTANCE_def split: if_splits)
  have fourth: "\<forall>band t. LEAF_TRANSMISSIVITY band = Some t \<longrightarrow> t \<noteq> 0"
    by (auto simp: LEAF_TRANSMISSIVITY_def split: if_splits)
  from first second third fourth show ?thesis by blast
qed

theorem textured_soil_treated_as_vegetation_witness:
  "\<exists>ctx1 counts ctx' n ctx''.
       create_soil_plane
         \<lparr>ctx_uuids = [], ctx_next_uuid = 0, ctx_string_data = (\<lambda>k. None), ctx_float_data = (\<lambda>k. None)\<rparr>
         1 1 (Some ''dirt.jpg'') True True 30 (3/10) = Inr (0, 3/10, ctx1)
     \<and> getAllUUIDs ctx1 = [0, 1, 2]
     \<and> apply_species_labels ctx1 0 Map.empty = Inr (counts, ctx')
     \<and> ctx_string_data ctx' (0, ''plant_part'') = Some ''ground''
     \<and> ctx_string_data ctx' (1, ''plant_part'') = Some ''bean''
     \<and> ctx_string_data ctx' (2, ''plant_part'') = Some ''bean''
     \<and> apply_radiative_properties ctx1 0 (Some [''Red'', ''Green'', ''Blue'']) = Inr (n, ctx'')
     \<and> ctx_float_data ctx'' (1, ''reflectivity_Red'') = Some (1/10)
     \<and> ctx_float_data ctx'' (2, ''transmissivity_Green'') = Some (15/100)"
proof -
  define ctx0 where "ctx0 = \<lparr>ctx_uuids = [], ctx_next_uuid = 0,
      ctx_string_data = (\<lambda>k :: nat \<times> string. None :: string option),
      ctx_float_data = (\<lambda>k :: nat \<times> string. None :: real option)\<rparr>"
  from textured_soil_treated_as_vegetation
         [of ctx0 1 1 "''dirt.jpg''" True 30 "3/10" Map.empty "[''Red'', ''Green'', ''Blue'']"]
  obtain g ctx1 t1 t2 where
    cr: "create_soil_plane ctx0 1 1 (Some ''dirt.jpg'') True True 30 (3/10) = Inr (g, 3/10, ctx1)"
    and us: "getAllUUIDs ctx1 = getAllUUIDs ctx0 @ [g, t1, t2]"
    and al: "\<forall>ctx. set (getAllUUIDs ctx1) \<subseteq> set (getAllUUIDs ctx) \<longrightarrow>
           (\<exists>counts ctx'. apply_species_labels ctx g Map.empty = Inr (counts, ctx')
               \<and> ctx_string_data ctx' (g, ''plant_part'') = Some PLANT_PART_GROUND
               \<and> ctx_string_data ctx' (t1, ''plant_part'') = Some PLANT_PART_BEAN
               \<and> ctx_string_data ctx' (t2, ''plant_part'') = Some PLANT_PART_BEAN)
         \<and> (\<exists>n ctx'. apply_radiative_properties ctx g (Some [''Red'', ''Green'', ''Blue'']) = Inr (n, ctx')
               \<and> (\<forall>band \<in> set [''Red'', ''Green'', ''Blue'']. leaf_coefficients ctx' t1 band
                                      \<and> leaf_coefficients ctx' t2 band))"
    by blast
  have ev: "create_soil_plane ctx0 1 1 (Some ''dirt.jpg'') True True 30 (3/10)
      = Inr (0, 3/10, ctx0\<lparr>ctx_uuids := [0, 1, 2], ctx_next_uuid := 3\<rparr>)"
    by (simp add: create_soil_plane_textured) (simp add: ctx0_def)
  from cr ev have g0: "g = 0" and c1: "ctx1 = ctx0\<lparr>ctx_uuids := [0, 1, 2], ctx_next_uuid := 3\<rparr>"
    by simp_all
  from us c1 g0 have ts: "t1 = 1" "t2 = 2" and u1: "getAllUUIDs ctx1 = [0, 1, 2]"
    by (simp_all add: getAllUUIDs_def ctx0_def)
  from al[rule_format, of ctx1] obtain counts ctx' n ctx'' where
    l: "apply_species_labels ctx1 g Map.empty = Inr (counts, ctx')"
       "ctx_string_data ctx' (g, ''plant_part'') = Some PLANT_PART_GROUND"
       "ctx_string_data ctx' (t1, ''plant_part'') = Some PLANT_PART_BEAN"
       "ctx_string_data ctx' (t2, ''plant_part'') = Some PLANT_PART_BEAN"
    and r: "apply_radiative_properties ctx1 g (Some [''Red'', ''Green'', ''Blue'']) = Inr (n, ctx'')"
       "\<forall>band \<in> set [''Red'', ''Green'', ''Blue'']. leaf_coefficients ctx'' t1 band
                                      \<and> leaf_coefficients ctx'' t2 band"
    by auto
  from r(2) have v: "ctx_float_data ctx'' (1, ''reflectivity_Red'') = Some (1/10)"
      "ctx_float_data ctx'' (2, ''transmissivity_Green'') = Some (15/100)"
    by (simp_all add: ts leaf_coefficients_def LEAF_REFLECTANCE_def LEAF_TRANSMISSIVITY_def)
  show ?thesis
    apply (rule exI[of _ ctx1], rule exI[of _ counts], rule exI[of _ ctx'], rule exI[of _ n],
           rule exI[of _ ctx''])
    using cr l r(1) v u1 g0 ts
    by (simp add: ctx0_def PLANT_PART_GROUND_def PLANT_PART_BEAN_def)
qed

section \<open>The height of the nadir camera\<close>

text \<open>
  The code computes the formula of the specification: for a field of view strictly
  between 0 and 180 degrees the tangent of half the field of view is positive and the
  height is \<open>margin_factor\<close> times half the plot diagonal divided by that tangent.
\<close>

lemma nadir_height_formula:
  assumes "0 < fov_degrees" "fov_degrees < 180"
  shows "0 < tan (fov_degrees * pi / 360)
     \<and> calculate_nadir_camera_height plot_width plot_length fov_degrees margin_factor
         = margin_factor * (sqrt (plot_width\<^sup>2 + plot_length\<^sup>2) / 2) / tan (fov_degrees * pi / 360)"
proof -
  have "0 < fov_degrees * pi / 360" using assms(1) by simp
  moreover have "fov_degrees * pi / 360 < pi / 2" using assms(2) by simp
  ultimately have p: "0 < tan (fov_degrees * pi / 360)" by (rule tan_gt_zero)
  have f: "calculate_nadir_camera_height plot_width plot_length fov_degrees margin_factor
         = margin_factor * (sqrt (plot_width\<^sup>2 + plot_length\<^sup>2) / 2) / tan (fov_degrees * pi / 360)"
    by (simp add: calculate_nadir_camera_height_def Let_def np_radians_def)
  from p f show ?thesis by blast
qed

text \<open>
  Claim C5 at the input of the repository's own test: a plot of 1 m by 1 m, a field of
  view of 60 degrees and the default margin 1.1. The claim, the assertion of
  tests/test_geometry.py (\<open>1.4 < height < 1.8\<close>) and the example of the docstring
  (\<open>1.60m\<close>) put the height between 1.4 m and 1.8 m. The code returns the value of the
  formula, 0.55 times the square root of 6, about 1.347 m, which is below 1.4 m.
\<close>

theorem nadir_height_default_plot_below_interval:
  "calculate_nadir_camera_height 1 1 60 (11/10)
     = (11/10) * (sqrt (1\<^sup>2 + 1\<^sup>2) / 2) / tan (np_radians 60 / 2)
   \<and> calculate_nadir_camera_height 1 1 60 (11/10) = 11 * sqrt 6 / 20
   \<and> calculate_nadir_camera_height 1 1 60 (11/10) < 14 / 10"
proof -
  have f: "calculate_nadir_camera_height 1 1 60 (11/10)
     = (11/10) * (sqrt (1\<^sup>2 + 1\<^sup>2) / 2) / tan (np_radians 60 / 2)"
    by (simp add: calculate_nadir_camera_height_def Let_def)
  have lt: "calculate_nadir_camera_height 1 1 60 (11/10) < 14 / 10"
    using sqrt6_upper by (simp add: nadir_height_default)
  from f nadir_height_default lt show ?thesis by blast
qed

section \<open>Failures of the camera stage\<close>



section \<open>Failure of the solar position\<close>

text \<open>
  Claim C4, as stated, fails: \<open>calculate_solar_position\<close> is called outside any
  \<open>try\<close>. With neither imaging nor the interactive view requested and an error raised
  by the solar position, \<open>main\<close> ends with that error; it does not return.
\<close>

theorem solar_failure_without_imaging_counterexample:
  "snd (main \<lparr>plugins_available = True,
              raises = (\<lambda>c. if c = CalculateSolarPosition then Some HeliosError else None),
              primary_image = True\<rparr>
             \<lparr>camera = False, segmentation = False, save = True, no_interactive = True,
              growth_days = 40, bean_age = None, wheat_age = None\<rparr>)
   = Raised HeliosError
   \<and> Raised HeliosError \<noteq> Returned 0"
  by (simp add: main_def scene_built_calls_def labeled_calls_def output_folder_calls_def
        camera_stage_def max_growth_time_def DEFAULT_INITIAL_AGE_def)

text \<open>
  Claim C4, amended. If the plugins are available, every call before the solar position
  completes and the solar position raises, then \<open>main\<close> ends with that error, whatever
  flags were given: the failure is not caught, and no later call (output folder, camera
  stage, export, interactive view) is made.
\<close>

theorem solar_failure_always_aborts:
  assumes "plugins_available env"
    and "raises env ParseDateTime = None"
    and "\<forall>c \<in> set (scene_built_calls a @ labeled_calls a). raises env c = None"
    and "raises env CalculateSolarPosition = Some e"
  shows "main env a
         = (map Completed (ParseDateTime # scene_built_calls a @ labeled_calls a), Raised e)"
proof -
  have p: "run_calls (raises env) [ParseDateTime] [] = ([Completed ParseDateTime], None)"
    using assms(2) by simp
  have "run_calls (raises env)
          ((scene_built_calls a @ labeled_calls a) @ CalculateSolarPosition # output_folder_calls a)
          [Completed ParseDateTime]
        = ([Completed ParseDateTime] @ map Completed (scene_built_calls a @ labeled_calls a), Some e)"
    by (rule run_calls_raise[OF assms(3) assms(4)])
  then have s: "run_calls (raises env)
          (scene_built_calls a @ labeled_calls a @ [CalculateSolarPosition] @ output_folder_calls a)
          [Completed ParseDateTime]
        = (Completed ParseDateTime # map Completed (scene_built_calls a @ labeled_calls a), Some e)"
    by simp
  show ?thesis
    unfolding main_def p using assms(1) s by simp
qed

theorem solar_failure_always_aborts_witness:
  "main \<lparr>plugins_available = True,
         raises = (\<lambda>c. if c = CalculateSolarPosition then Some HeliosError else None),
         primary_image = True\<rparr>
        \<lparr>camera = True, segmentation = True, save = True, no_interactive = False,
         growth_days = 40, bean_age = None, wheat_age = None\<rparr>
   = (map Completed
        [ParseDateTime, SetupHeliosContext, CreateSoilPlane, GenerateIntercropPositions,
         OpenPlantArchitecture, SetupFullCollisionSystem, BuildPlants, GrowPlants,
         GetPrimitiveCount, ApplySpeciesLabels],
      Raised HeliosError)"
proof -
  define env where "env = \<lparr>plugins_available = True,
         raises = (\<lambda>c. if c = CalculateSolarPosition then Some HeliosError else None),
         primary_image = True\<rparr>"
  define a where "a = \<lparr>camera = True, segmentation = True, save = True, no_interactive = False,
         growth_days = 40, bean_age = None :: int option, wheat_age = None :: int option\<rparr>"
  have h1: "plugins_available env" by (simp add: env_def)
  have h2: "raises env ParseDateTime = None" by (simp add: env_def)
  have h3: "\<forall>c \<in> set (scene_built_calls a @ labeled_calls a). raises env c = None"
    by (auto simp: env_def a_def scene_built_calls_def labeled_calls_def)
  have h4: "raises env CalculateSolarPosition = Some HeliosError" by (simp add: env_def)
  from solar_failure_always_aborts[OF h1 h2 h3 h4] show ?thesis
    by (simp add: env_def a_def scene_built_calls_def labeled_calls_def max_growth_time_def
          DEFAULT_INITIAL_AGE_def)
qed


end
